theory Spec2Isabelle
  imports Main
begin

section \<open>Data model of the dashboard (App.js)\<close>

text \<open>
  The component \<open>App\<close> keeps seven pieces of React state: \<open>sensors\<close>, \<open>armed\<close>, \<open>logs\<close>,
  \<open>showModal\<close>, \<open>selectedSensor\<close>, \<open>simulate\<close> and \<open>alarmOn\<close>. They are the fields of the
  record \<open>app\<close>; every handler of the component becomes a function from \<open>app\<close> to \<open>app\<close>.

  JavaScript strings are modelled as \<open>string\<close>, a list of bytes: a character outside ASCII
  stands as its UTF-8 bytes. Time stamps are the strings \<open>nowISO()\<close> returns; the clock is a
  parameter of every handler that reads it. A sensor's \<open>id\<close> is a JavaScript number that
  only ever holds an integer.
\<close>

record event =
  e_time :: string
  e_type :: string
  e_note :: string

record sensor =
  s_id :: int
  s_name :: string
  s_type :: string
  s_state :: string
  s_lastEvent :: "string option"
  s_history :: "event list"

record log_entry =
  l_message :: string
  l_time :: string

record app =
  sensors :: "sensor list"
  armed :: bool
  logs :: "log_entry list"
  showModal :: bool
  selectedSensor :: "sensor option"
  simulate :: bool
  alarmOn :: bool

text \<open>The array \<open>initialSensors\<close> (lines 13 to 54); \<open>lastEvent: null\<close> is \<open>None\<close>.\<close>

definition initialSensors :: "sensor list" where
  "initialSensors =
    [\<lparr>s_id = 1, s_name = ''Front Door'', s_type = ''door'', s_state = ''closed'',
        s_lastEvent = None, s_history = []\<rparr>,
     \<lparr>s_id = 2, s_name = ''Back Window'', s_type = ''window'', s_state = ''closed'',
        s_lastEvent = None, s_history = []\<rparr>,
     \<lparr>s_id = 3, s_name = ''Living Room Motion'', s_type = ''motion'', s_state = ''idle'',
        s_lastEvent = None, s_history = []\<rparr>,
     \<lparr>s_id = 4, s_name = ''Garage Camera'', s_type = ''camera'', s_state = ''ok'',
        s_lastEvent = None, s_history = []\<rparr>,
     \<lparr>s_id = 5, s_name = ''Kitchen Smoke'', s_type = ''smoke'', s_state = ''ok'',
        s_lastEvent = None, s_history = []\<rparr>]"

text \<open>
  The glyphs of the log messages and history notes, as UTF-8: U+1F515 (bell with slash),
  U+1F6A8 (police car light), U+2014 (em dash) and U+2192 (rightwards arrow).
\<close>

definition bell_off :: string where
  "bell_off = [CHR 0xF0, CHR 0x9F, CHR 0x94, CHR 0x95]"

definition siren :: string where
  "siren = [CHR 0xF0, CHR 0x9F, CHR 0x9A, CHR 0xA8]"

definition em_dash :: string where
  "em_dash = [CHR 0xE2, CHR 0x80, CHR 0x94]"

definition arrow :: string where
  "arrow = [CHR 0xE2, CHR 0x86, CHR 0x92]"

section \<open>The event log\<close>

text \<open>
  \<open>pushLog(message, time)\<close> (lines 222 to 226) queues the updater
  \<open>prev => [{ message, time: time || nowISO() }, ...prev].slice(0, 200)\<close>. The model is the
  updater applied to the log: \<open>time\<close> is \<open>None\<close> when the caller leaves the argument out,
  and an empty string is falsy, so the clock is read in both cases.
\<close>

definition pushLog :: "string \<Rightarrow> string option \<Rightarrow> string \<Rightarrow> log_entry list \<Rightarrow> log_entry list" where
  "pushLog message time now prev =
     take 200 (\<lparr>l_message = message,
                 l_time = (case time of None \<Rightarrow> now | Some t \<Rightarrow> if t \<noteq> [] then t else now)\<rparr> # prev)"

section \<open>The sensor event handler\<close>

text \<open>Lines 172 to 185: the state a sensor goes to; a forced state that is truthy wins.\<close>

definition toggleState :: "sensor \<Rightarrow> string" where
  "toggleState s =
     (if s_type s = ''door'' \<or> s_type s = ''window'' then
        (if s_state s = ''open'' then ''closed'' else ''open'')
      else if s_type s = ''motion'' then
        (if s_state s = ''motion'' then ''idle'' else ''motion'')
      else if s_type s = ''camera'' then
        (if s_state s = ''ok'' then ''alert'' else ''ok'')
      else if s_type s = ''smoke'' then
        (if s_state s = ''alarm'' then ''ok'' else ''alarm'')
      else
        (if s_state s = ''ok'' then ''alert'' else ''ok''))"

definition newState :: "string option \<Rightarrow> sensor \<Rightarrow> string" where
  "newState forcedState s =
     (case forcedState of
        None \<Rightarrow> toggleState s
      | Some f \<Rightarrow> if f \<noteq> [] then f else toggleState s)"

text \<open>The test of lines 199 to 203 on the new state.\<close>

definition abnormal :: "string \<Rightarrow> bool" where
  "abnormal st \<longleftrightarrow> st = ''open'' \<or> st = ''motion'' \<or> st = ''alarm'' \<or> st = ''alert''"

text \<open>The three messages \<open>simulateSensorEvent\<close> logs (lines 168, 195 and 207).\<close>

definition silencedMessage :: "string \<Rightarrow> string" where
  "silencedMessage nm = bell_off @ '' Alarm stopped manually via '' @ nm"

definition changeMessage :: "string \<Rightarrow> string \<Rightarrow> string" where
  "changeMessage nm st = nm @ '' '' @ em_dash @ '' '' @ st"

definition triggeredMessage :: "string \<Rightarrow> string" where
  "triggeredMessage nm =
     siren @ '' ALARM TRIGGERED: '' @ nm @ '' detected activity while system armed''"

text \<open>
  The body of the callback given to \<open>prev.map\<close> (lines 160 to 218), for one sensor. The
  callback calls \<open>setAlarmOn\<close> and \<open>pushLog\<close> while it maps, so it takes and returns the
  pending value of \<open>alarmOn\<close> and the log beside the sensor. \<open>alarmOn\<close> and \<open>armed\<close> in its
  tests are the values the handler's closure holds (\<open>ringing\<close>, \<open>isArmed\<close>): the calls of
  \<open>setAlarmOn\<close> do not change them while the map runs.
\<close>

definition updateSensor ::
  "bool \<Rightarrow> bool \<Rightarrow> int \<Rightarrow> string option \<Rightarrow> string \<Rightarrow> sensor \<Rightarrow> bool \<times> log_entry list
     \<Rightarrow> sensor \<times> bool \<times> log_entry list" where
  "updateSensor ringing isArmed sensorId forcedState eventTime s eff =
     (if s_id s \<noteq> sensorId then (s, eff)
      else if ringing then
        (s, False, pushLog (silencedMessage (s_name s)) (Some eventTime) eventTime (snd eff))
      else
        (let st = newState forcedState s;
             ev = \<lparr>e_time = eventTime, e_type = st,
                    e_note = s_name s @ '' '' @ arrow @ '' '' @ st\<rparr>;
             newHistory = take 30 (ev # s_history s);
             lg = pushLog (changeMessage (s_name s) st) (Some eventTime) eventTime (snd eff);
             eff' = (if isArmed \<and> abnormal st
                     then (True, pushLog (triggeredMessage (s_name s)) (Some eventTime) eventTime lg)
                     else (fst eff, lg))
         in (s\<lparr>s_state := st, s_lastEvent := Some eventTime, s_history := newHistory\<rparr>, eff')))"

text \<open>\<open>Array.prototype.map\<close> with a callback that has effects: left to right.\<close>

fun mapSensors ::
  "(sensor \<Rightarrow> bool \<times> log_entry list \<Rightarrow> sensor \<times> bool \<times> log_entry list)
     \<Rightarrow> sensor list \<Rightarrow> bool \<times> log_entry list \<Rightarrow> sensor list \<times> bool \<times> log_entry list" where
  "mapSensors f [] eff = ([], eff)"
| "mapSensors f (s # ss) eff =
     (case f s eff of (s', eff') \<Rightarrow>
        (case mapSensors f ss eff' of (ss', eff'') \<Rightarrow> (s' # ss', eff'')))"

text \<open>
  \<open>simulateSensorEvent(sensorId, forcedState = null)\<close> (lines 158 to 220), the
  \<open>triggerSensor\<close> of the specification. React calls the updater given to \<open>setSensors\<close>
  once with the current sensors (as a production build does; the \<open>StrictMode\<close> of
  \<open>index.js\<close> repeats updaters in development only) and applies the updates of \<open>alarmOn\<close>
  and of the log that the updater queued, in the order of the calls.

  The function is created anew at every render and reads \<open>alarmOn\<close> and \<open>armed\<close> from that
  render. \<open>simulateSensorEventIn\<close> is the function of a render in which they were \<open>ringing\<close>
  and \<open>isArmed\<close>. The buttons are rendered again after every change, so a click calls the
  function of the current state: that is \<open>simulateSensorEvent\<close>.
\<close>

definition simulateSensorEventIn ::
  "bool \<Rightarrow> bool \<Rightarrow> int \<Rightarrow> string option \<Rightarrow> string \<Rightarrow> app \<Rightarrow> app" where
  "simulateSensorEventIn ringing isArmed sensorId forcedState now a =
     (case mapSensors (updateSensor ringing isArmed sensorId forcedState now)
             (sensors a) (alarmOn a, logs a) of
        (ss, al, lg) \<Rightarrow> a\<lparr>sensors := ss, alarmOn := al, logs := lg\<rparr>)"

definition simulateSensorEvent :: "int \<Rightarrow> string option \<Rightarrow> string \<Rightarrow> app \<Rightarrow> app" where
  "simulateSensorEvent sensorId forcedState now a =
     simulateSensorEventIn (alarmOn a) (armed a) sensorId forcedState now a"

text \<open>
  The callback of the simulation timer (lines 147 to 153), when the random number is
  below 0.3: it triggers the sensor at a random index. The timer is set up again only
  when \<open>simulate\<close> or \<open>sensors\<close> change (line 155), so it may call the function of an
  earlier render, whose \<open>alarmOn\<close> and \<open>armed\<close> are given. With no sensors,
  \<open>sensors[idx].id\<close> throws inside the timer and the state stays as it is.
\<close>

definition simulationTick :: "bool \<Rightarrow> bool \<Rightarrow> nat \<Rightarrow> string \<Rightarrow> app \<Rightarrow> app" where
  "simulationTick ringing isArmed idx now a =
     (if idx < length (sensors a)
      then simulateSensorEventIn ringing isArmed (s_id (sensors a ! idx)) None now a
      else a)"

text \<open>\<open>quickToggle(sensor)\<close> (lines 266 to 268), the Trigger button of a sensor card.\<close>

definition quickToggle :: "sensor \<Rightarrow> string \<Rightarrow> app \<Rightarrow> app" where
  "quickToggle s now a = simulateSensorEvent (s_id s) None now a"

section \<open>The other handlers\<close>

text \<open>\<open>openSensorModal(sensor)\<close> (lines 228 to 231).\<close>

definition openSensorModal :: "sensor \<Rightarrow> app \<Rightarrow> app" where
  "openSensorModal s a = a\<lparr>selectedSensor := Some s, showModal := True\<rparr>"

text \<open>
  \<open>performSensorAck(sensorId)\<close> (lines 233 to 253), the \<open>acknowledgeSensor\<close> of the
  specification. The name in its log message is \<open>selectedSensor?.name\<close>: the text
  \<open>undefined\<close> when no sensor is selected.
\<close>

definition normalState :: "string \<Rightarrow> string" where
  "normalState ty =
     (if ty = ''motion'' then ''idle''
      else if ty = ''smoke'' then ''ok''
      else if ty = ''camera'' then ''ok''
      else ''closed'')"

definition selectedName :: "sensor option \<Rightarrow> string" where
  "selectedName sel = (case sel of None \<Rightarrow> ''undefined'' | Some s \<Rightarrow> s_name s)"

definition performSensorAck :: "int \<Rightarrow> string \<Rightarrow> app \<Rightarrow> app" where
  "performSensorAck sensorId now a =
     a\<lparr>sensors := map (\<lambda>s. if s_id s = sensorId then s\<lparr>s_state := normalState (s_type s)\<rparr> else s)
                      (sensors a),
       logs := pushLog (''Acknowledged '' @ selectedName (selectedSensor a)) (Some now) now (logs a),
       alarmOn := False\<rparr>"

text \<open>\<open>armSystem()\<close> and \<open>disarmSystem()\<close> (lines 255 to 264).\<close>

definition armSystem :: "string \<Rightarrow> app \<Rightarrow> app" where
  "armSystem now a = a\<lparr>armed := True, logs := pushLog ''System armed'' (Some now) now (logs a)\<rparr>"

definition disarmSystem :: "string \<Rightarrow> app \<Rightarrow> app" where
  "disarmSystem now a =
     a\<lparr>armed := False, alarmOn := False,
       logs := pushLog ''System disarmed'' (Some now) now (logs a)\<rparr>"

text \<open>
  The handlers written inline in the markup: the arm button (line 304), the simulation
  button (lines 311 to 314), the Clear Logs button (lines 321 to 324), the Sound Alarm
  checkbox (lines 340 to 343) and the Check button of a card (line 408). They call
  \<open>pushLog\<close> with no time.
\<close>

definition armButton :: "string \<Rightarrow> app \<Rightarrow> app" where
  "armButton now a = (if armed a then disarmSystem now a else armSystem now a)"

definition toggleSimulation :: "string \<Rightarrow> app \<Rightarrow> app" where
  "toggleSimulation now a =
     a\<lparr>simulate := \<not> simulate a,
       logs := pushLog (''Simulation '' @ (if simulate a then ''disabled'' else ''enabled''))
                 None now (logs a)\<rparr>"

definition clearLogs :: "string \<Rightarrow> app \<Rightarrow> app" where
  "clearLogs now a = a\<lparr>logs := pushLog ''Cleared logs'' None now []\<rparr>"

definition toggleAlarm :: "string \<Rightarrow> app \<Rightarrow> app" where
  "toggleAlarm now a =
     a\<lparr>alarmOn := \<not> alarmOn a,
       logs := pushLog (if alarmOn a then ''Alarm silenced'' else ''Alarm sounded'')
                 None now (logs a)\<rparr>"

definition checkSensor :: "sensor \<Rightarrow> string \<Rightarrow> app \<Rightarrow> app" where
  "checkSensor s now a = a\<lparr>logs := pushLog (''Checked '' @ s_name s) None now (logs a)\<rparr>"

text \<open>
  A command is one call of a handler; \<open>exec\<close> runs it at the time the clock shows, \<open>run\<close>
  a sequence of them, each to completion before the next.
\<close>

datatype command =
    Arm | Disarm | ArmButton
  | TriggerSensor int "string option"
  | QuickToggle sensor
  | AcknowledgeSensor int
  | OpenSensorModal sensor
  | ToggleAlarm | ClearLogs | ToggleSimulation
  | CheckSensor sensor
  | SimulationTick bool bool nat

fun exec :: "command \<Rightarrow> string \<Rightarrow> app \<Rightarrow> app" where
  "exec Arm now a = armSystem now a"
| "exec Disarm now a = disarmSystem now a"
| "exec ArmButton now a = armButton now a"
| "exec (TriggerSensor i forcedState) now a = simulateSensorEvent i forcedState now a"
| "exec (QuickToggle s) now a = quickToggle s now a"
| "exec (AcknowledgeSensor i) now a = performSensorAck i now a"
| "exec (OpenSensorModal s) now a = openSensorModal s a"
| "exec ToggleAlarm now a = toggleAlarm now a"
| "exec ClearLogs now a = clearLogs now a"
| "exec ToggleSimulation now a = toggleSimulation now a"
| "exec (CheckSensor s) now a = checkSensor s now a"
| "exec (SimulationTick ringing isArmed idx) now a = simulationTick ringing isArmed idx now a"

fun run :: "(command \<times> string) list \<Rightarrow> app \<Rightarrow> app" where
  "run [] a = a"
| "run ((c, now) # cs) a = run cs (exec c now a)"

section \<open>Persistence\<close>

text \<open>
  The component reads \<open>localStorage\<close> when it mounts (lines 66 to 88) and writes it after
  every change of \<open>sensors\<close>, \<open>armed\<close> or \<open>logs\<close> (lines 96 to 99). \<open>localStorage\<close>,
  \<open>JSON.parse\<close> and \<open>JSON.stringify\<close> belong to the platform, not to the repository: the
  storage is a map from keys to texts that may refuse access, and the two JSON functions
  are parameters (\<open>parse\<close>, \<open>stringify\<close>) of the functions that call them. A call of the
  platform either throws or returns.
\<close>

datatype json =
    JNull | JBool bool | JNum int | JStr string
  | JArr "json list" | JObj "(string \<times> json) list"

datatype 'a outcome = Throws | Returns 'a

datatype storage = Blocked | Items "string \<Rightarrow> string option"

definition STORAGE_KEY :: string where
  "STORAGE_KEY = ''home_security_state_v1''"

definition getItem :: "storage \<Rightarrow> string \<Rightarrow> string option outcome" where
  "getItem st k = (case st of Blocked \<Rightarrow> Throws | Items m \<Rightarrow> Returns (m k))"

definition setItem :: "storage \<Rightarrow> string \<Rightarrow> string \<Rightarrow> storage outcome" where
  "setItem st k v = (case st of Blocked \<Rightarrow> Throws | Items m \<Rightarrow> Returns (Items (m(k \<mapsto> v))))"

text \<open>
  Reading a property of a parsed value, \<open>JSON.parse(saved).sensors\<close>: a \<open>TypeError\<close> on
  \<open>null\<close>, the member of an object, and \<open>undefined\<close> (\<open>None\<close>) when the object has no such
  member or the value is an array, a string, a number or a boolean (none of which has a
  property named \<open>sensors\<close>, \<open>armed\<close> or \<open>logs\<close>). The members of a parsed object have
  distinct names.
\<close>

fun getProp :: "json \<Rightarrow> string \<Rightarrow> json option outcome" where
  "getProp JNull k = Throws"
| "getProp (JObj kvs) k = Returns (map_of kvs k)"
| "getProp v k = Returns None"

text \<open>
  The state as the JavaScript values it is: the object literals of lines 14 to 53, 187
  to 191, 212 to 217 and 224 give the members and their order.
\<close>

definition event_json :: "event \<Rightarrow> json" where
  "event_json e = JObj [(''time'', JStr (e_time e)), (''type'', JStr (e_type e)),
                        (''note'', JStr (e_note e))]"

definition sensor_json :: "sensor \<Rightarrow> json" where
  "sensor_json s =
     JObj [(''id'', JNum (s_id s)), (''name'', JStr (s_name s)), (''type'', JStr (s_type s)),
           (''state'', JStr (s_state s)),
           (''lastEvent'', (case s_lastEvent s of None \<Rightarrow> JNull | Some t \<Rightarrow> JStr t)),
           (''history'', JArr (map event_json (s_history s)))]"

definition log_json :: "log_entry \<Rightarrow> json" where
  "log_json l = JObj [(''message'', JStr (l_message l)), (''time'', JStr (l_time l))]"

text \<open>
  The snapshot \<open>{ sensors, armed, logs }\<close> of line 98, and the effect that stores it.
\<close>

record snapshot =
  sn_sensors :: "sensor list"
  sn_armed :: bool
  sn_logs :: "log_entry list"

definition snapshot_of :: "app \<Rightarrow> snapshot" where
  "snapshot_of a = \<lparr>sn_sensors = sensors a, sn_armed = armed a, sn_logs = logs a\<rparr>"

definition snapshot_json :: "snapshot \<Rightarrow> json" where
  "snapshot_json snap =
     JObj [(''sensors'', JArr (map sensor_json (sn_sensors snap))),
           (''armed'', JBool (sn_armed snap)),
           (''logs'', JArr (map log_json (sn_logs snap)))]"

definition persist :: "(json \<Rightarrow> string) \<Rightarrow> snapshot \<Rightarrow> storage \<Rightarrow> storage outcome" where
  "persist stringify snap st = setItem st STORAGE_KEY (stringify (snapshot_json snap))"

text \<open>
  The three initialisers of lines 66 to 88 have one shape: inside \<open>try\<close>, read the key
  and, if the text is truthy, return the member of the parsed value; on any exception,
  and when the text is \<open>null\<close> or empty, return the default.
\<close>

definition loadField ::
  "(string \<Rightarrow> json outcome) \<Rightarrow> storage \<Rightarrow> string \<Rightarrow> json option \<Rightarrow> json option" where
  "loadField parse st field dflt =
     (case getItem st STORAGE_KEY of
        Throws \<Rightarrow> dflt
      | Returns None \<Rightarrow> dflt
      | Returns (Some saved) \<Rightarrow>
          if saved = [] then dflt
          else
            (case parse saved of
               Throws \<Rightarrow> dflt
             | Returns v \<Rightarrow> (case getProp v field of Throws \<Rightarrow> dflt | Returns x \<Rightarrow> x)))"

record loaded =
  ld_sensors :: "json option"
  ld_armed :: "json option"
  ld_logs :: "json option"

definition defaults :: loaded where
  "defaults = \<lparr>ld_sensors = Some (JArr (map sensor_json initialSensors)),
                ld_armed = Some (JBool False), ld_logs = Some (JArr [])\<rparr>"

definition load :: "(string \<Rightarrow> json outcome) \<Rightarrow> storage \<Rightarrow> loaded" where
  "load parse st =
     \<lparr>ld_sensors = loadField parse st ''sensors'' (ld_sensors defaults),
      ld_armed = loadField parse st ''armed'' (ld_armed defaults),
      ld_logs = loadField parse st ''logs'' (ld_logs defaults)\<rparr>"

text \<open>
  The other four \<open>useState\<close> calls (lines 90 to 93) do not read the storage.
\<close>

record mounted =
  m_stored :: loaded
  m_showModal :: bool
  m_selectedSensor :: "sensor option"
  m_simulate :: bool
  m_alarmOn :: bool

definition mount :: "(string \<Rightarrow> json outcome) \<Rightarrow> storage \<Rightarrow> mounted" where
  "mount parse st =
     \<lparr>m_stored = load parse st, m_showModal = False, m_selectedSensor = None,
      m_simulate = True, m_alarmOn = False\<rparr>"

text \<open>
  The first use the markup makes of \<open>sensors\<close> is the call \<open>sensors.map\<close> (line 351). It
  throws a \<open>TypeError\<close>, before the callback is called, unless \<open>sensors\<close> is an array: a
  parsed value has no function among its members.
\<close>

definition mapCallThrows :: "json option \<Rightarrow> bool" where
  "mapCallThrows v = (case v of Some (JArr xs) \<Rightarrow> False | _ \<Rightarrow> True)"

subsection \<open>Stored values as typed state\<close>

text \<open>
  JavaScript does not check what the storage gave back. A loaded value is a sensor list,
  a flag or a log when it has that shape: an object is read by its members, as the
  component reads \<open>s.id\<close> or \<open>l.message\<close>.
\<close>

definition as_str :: "json option \<Rightarrow> string option" where
  "as_str v = (case v of Some (JStr s) \<Rightarrow> Some s | _ \<Rightarrow> None)"

fun decode_list :: "(json \<Rightarrow> 'a option) \<Rightarrow> json list \<Rightarrow> 'a list option" where
  "decode_list f [] = Some []"
| "decode_list f (j # js) =
     (case f j of
        None \<Rightarrow> None
      | Some x \<Rightarrow> (case decode_list f js of None \<Rightarrow> None | Some xs \<Rightarrow> Some (x # xs)))"

definition event_of_json :: "json \<Rightarrow> event option" where
  "event_of_json j =
     (case j of
        JObj kvs \<Rightarrow>
          (case (as_str (map_of kvs ''time''), as_str (map_of kvs ''type''),
                 as_str (map_of kvs ''note'')) of
             (Some t, Some ty, Some n) \<Rightarrow> Some \<lparr>e_time = t, e_type = ty, e_note = n\<rparr>
           | _ \<Rightarrow> None)
      | _ \<Rightarrow> None)"

definition log_of_json :: "json \<Rightarrow> log_entry option" where
  "log_of_json j =
     (case j of
        JObj kvs \<Rightarrow>
          (case (as_str (map_of kvs ''message''), as_str (map_of kvs ''time'')) of
             (Some m, Some t) \<Rightarrow> Some \<lparr>l_message = m, l_time = t\<rparr>
           | _ \<Rightarrow> None)
      | _ \<Rightarrow> None)"

definition sensor_of_json :: "json \<Rightarrow> sensor option" where
  "sensor_of_json j =
     (case j of
        JObj kvs \<Rightarrow>
          (case (map_of kvs ''id'', as_str (map_of kvs ''name''), as_str (map_of kvs ''type''),
                 as_str (map_of kvs ''state''), map_of kvs ''lastEvent'', map_of kvs ''history'') of
             (Some (JNum i), Some nm, Some ty, Some st, Some le, Some (JArr h)) \<Rightarrow>
               (case (if le = JNull then Some None else map_option Some (as_str (Some le)),
                      decode_list event_of_json h) of
                  (Some l, Some evs) \<Rightarrow>
                    Some \<lparr>s_id = i, s_name = nm, s_type = ty, s_state = st,
                          s_lastEvent = l, s_history = evs\<rparr>
                | _ \<Rightarrow> None)
           | _ \<Rightarrow> None)
      | _ \<Rightarrow> None)"

definition typed :: "loaded \<Rightarrow> snapshot option" where
  "typed ld =
     (case (ld_sensors ld, ld_armed ld, ld_logs ld) of
        (Some (JArr ss), Some (JBool ar), Some (JArr lg)) \<Rightarrow>
          (case (decode_list sensor_of_json ss, decode_list log_of_json lg) of
             (Some sensors', Some logs') \<Rightarrow>
               Some \<lparr>sn_sensors = sensors', sn_armed = ar, sn_logs = logs'\<rparr>
           | _ \<Rightarrow> None)
      | _ \<Rightarrow> None)"

definition app_of :: "mounted \<Rightarrow> app option" where
  "app_of mt =
     (case typed (m_stored mt) of
        None \<Rightarrow> None
      | Some snap \<Rightarrow>
          Some \<lparr>sensors = sn_sensors snap, armed = sn_armed snap, logs = sn_logs snap,
                showModal = m_showModal mt, selectedSensor = m_selectedSensor mt,
                simulate = m_simulate mt, alarmOn = m_alarmOn mt\<rparr>)"

subsection \<open>A reference codec\<close>

text \<open>
  A printer and a parser for the compact JSON texts that \<open>JSON.stringify\<close> writes for
  snapshots (integers, strings without control characters, no white space). They stand
  for the platform where a theorem is applied to a concrete storage. The parser runs on
  fuel, one unit for each level of a value and each element of an array or an object; a
  text never needs more than its length.
\<close>

fun escape :: "string \<Rightarrow> string" where
  "escape [] = []"
| "escape (c # cs) =
     (if c = CHR 0x22 \<or> c = CHR 0x5C then CHR 0x5C # c # escape cs else c # escape cs)"

fun digits :: "nat \<Rightarrow> string" where
  "digits n = (if n < 10 then [char_of (48 + n)] else digits (n div 10) @ [char_of (48 + n mod 10)])"

definition show_int :: "int \<Rightarrow> string" where
  "show_int i = (if i < 0 then CHR ''-'' # digits (nat (- i)) else digits (nat i))"

fun join :: "string list \<Rightarrow> string" where
  "join [] = []"
| "join [x] = x"
| "join (x # y # ys) = x @ CHR '','' # join (y # ys)"

fun ref_stringify :: "json \<Rightarrow> string" where
  "ref_stringify JNull = ''null''"
| "ref_stringify (JBool b) = (if b then ''true'' else ''false'')"
| "ref_stringify (JNum i) = show_int i"
| "ref_stringify (JStr s) = CHR 0x22 # escape s @ [CHR 0x22]"
| "ref_stringify (JArr vs) = CHR ''['' # join (map ref_stringify vs) @ '']''"
| "ref_stringify (JObj kvs) =
     CHR ''{'' # join (map (\<lambda>(k, v). CHR 0x22 # escape k @ CHR 0x22 # CHR '':'' # ref_stringify v) kvs)
       @ ''}''"

fun parse_chars :: "string \<Rightarrow> (string \<times> string) option" where
  "parse_chars [] = None"
| "parse_chars (c # cs) =
     (if c = CHR 0x22 then Some ([], cs)
      else if c = CHR 0x5C then
        (case cs of
           [] \<Rightarrow> None
         | d # ds \<Rightarrow>
             if d = CHR 0x22 \<or> d = CHR 0x5C
             then map_option (\<lambda>(s, r). (d # s, r)) (parse_chars ds)
             else None)
      else map_option (\<lambda>(s, r). (c # s, r)) (parse_chars cs))"

definition is_digit :: "char \<Rightarrow> bool" where
  "is_digit c \<longleftrightarrow> 48 \<le> (of_char c :: nat) \<and> (of_char c :: nat) \<le> 57"

definition read_nat :: "string \<Rightarrow> nat" where
  "read_nat ds = foldl (\<lambda>n c. 10 * n + (of_char c - 48)) 0 ds"

definition parse_number :: "string \<Rightarrow> (json \<times> string) option" where
  "parse_number cs =
     (case cs of
        [] \<Rightarrow> None
      | c # r \<Rightarrow>
          if c = CHR ''-'' then
            (if takeWhile is_digit r = [] then None
             else Some (JNum (- int (read_nat (takeWhile is_digit r))), dropWhile is_digit r))
          else if takeWhile is_digit cs = [] then None
          else Some (JNum (int (read_nat (takeWhile is_digit cs))), dropWhile is_digit cs))"

definition literal :: "string \<Rightarrow> json \<Rightarrow> string \<Rightarrow> (json \<times> string) option" where
  "literal w v cs = (if take (length w) cs = w then Some (v, drop (length w) cs) else None)"

fun parse_value :: "nat \<Rightarrow> string \<Rightarrow> (json \<times> string) option"
  and parse_items :: "nat \<Rightarrow> string \<Rightarrow> (json list \<times> string) option"
  and parse_members :: "nat \<Rightarrow> string \<Rightarrow> ((string \<times> json) list \<times> string) option" where
  "parse_value 0 cs = None"
| "parse_value (Suc n) cs =
     (case cs of
        [] \<Rightarrow> None
      | c # r \<Rightarrow>
          if c = CHR ''n'' then literal ''ull'' JNull r
          else if c = CHR ''t'' then literal ''rue'' (JBool True) r
          else if c = CHR ''f'' then literal ''alse'' (JBool False) r
          else if c = CHR 0x22 then map_option (\<lambda>(s, r'). (JStr s, r')) (parse_chars r)
          else if c = CHR ''['' then
            (case r of
               [] \<Rightarrow> None
             | d # r' \<Rightarrow>
                 if d = CHR '']'' then Some (JArr [], r')
                 else map_option (\<lambda>(vs, r''). (JArr vs, r'')) (parse_items n r))
          else if c = CHR ''{'' then
            (case r of
               [] \<Rightarrow> None
             | d # r' \<Rightarrow>
                 if d = CHR ''}'' then Some (JObj [], r')
                 else map_option (\<lambda>(kvs, r''). (JObj kvs, r'')) (parse_members n r))
          else parse_number cs)"
| "parse_items 0 cs = None"
| "parse_items (Suc n) cs =
     (case parse_value n cs of
        None \<Rightarrow> None
      | Some (v, r) \<Rightarrow>
          (case r of
             [] \<Rightarrow> None
           | c # r' \<Rightarrow>
               if c = CHR '','' then map_option (\<lambda>(vs, r''). (v # vs, r'')) (parse_items n r')
               else if c = CHR '']'' then Some ([v], r')
               else None))"
| "parse_members 0 cs = None"
| "parse_members (Suc n) cs =
     (case cs of
        [] \<Rightarrow> None
      | q # r0 \<Rightarrow>
          if q \<noteq> CHR 0x22 then None
          else
            (case parse_chars r0 of
               None \<Rightarrow> None
             | Some (k, r1) \<Rightarrow>
                 (case r1 of
                    [] \<Rightarrow> None
                  | c # r2 \<Rightarrow>
                      if c \<noteq> CHR '':'' then None
                      else
                        (case parse_value n r2 of
                           None \<Rightarrow> None
                         | Some (v, r3) \<Rightarrow>
                             (case r3 of
                                [] \<Rightarrow> None
                              | d # r4 \<Rightarrow>
                                  if d = CHR '','' then
                                    map_option (\<lambda>(kvs, r5). ((k, v) # kvs, r5)) (parse_members n r4)
                                  else if d = CHR ''}'' then Some ([(k, v)], r4)
                                  else None)))))"

definition ref_parse :: "string \<Rightarrow> json outcome" where
  "ref_parse txt =
     (case parse_value (Suc (length txt)) txt of
        Some (v, []) \<Rightarrow> Returns v
      | _ \<Rightarrow> Throws)"

section \<open>Predicates of the specification\<close>


text \<open>
  The caps of the data model: no history longer than 30 entries, no log longer than 200.
\<close>

definition bounded :: "app \<Rightarrow> bool" where
  "bounded a \<longleftrightarrow> (\<forall>s\<in>set (sensors a). length (s_history s) \<le> 30) \<and> length (logs a) \<le> 200"

section \<open>States the properties are stated on\<close>

text \<open>
  The state of a first start: the defaults of the \<open>useState\<close> calls (lines 66 to 93) when
  nothing is stored.
\<close>

definition initialApp :: app where
  "initialApp = \<lparr>sensors = initialSensors, armed = False, logs = [], showModal = False,
     selectedSensor = None, simulate = True, alarmOn = False\<rparr>"

text \<open>
  The scenario of the specification: the system is armed, then the Front Door's Trigger
  button is clicked, which opens the door and starts the alarm.
\<close>

definition frontDoor :: sensor where
  "frontDoor = \<lparr>s_id = 1, s_name = ''Front Door'', s_type = ''door'', s_state = ''closed'',
        s_lastEvent = None, s_history = []\<rparr>"

definition ringingApp :: app where
  "ringingApp = run [(Arm, ''2024-05-01T10:00:00.000Z''),
                     (QuickToggle frontDoor, ''2024-05-01T10:00:05.000Z'')] initialApp"

definition frontDoorOpen :: sensor where
  "frontDoorOpen = \<lparr>s_id = 1, s_name = ''Front Door'', s_type = ''door'', s_state = ''open'',
        s_lastEvent = Some ''2024-05-01T10:00:05.000Z'',
        s_history = [\<lparr>e_time = ''2024-05-01T10:00:05.000Z'', e_type = ''open'',
                       e_note = ''Front Door '' @ arrow @ '' open''\<rparr>]\<rparr>"

text \<open>The armed system of the scenario, before any sensor is triggered.\<close>

definition armedApp :: app where
  "armedApp = run [(Arm, ''2024-05-01T10:00:00.000Z'')] initialApp"

text \<open>
  A second scenario: the Kitchen Smoke sensor is triggered while the system is armed
  (\<open>smokeApp\<close>), then its card is clicked, which selects it (\<open>smokeModalApp\<close>).
\<close>

definition kitchenSmokeAlarm :: sensor where
  "kitchenSmokeAlarm = \<lparr>s_id = 5, s_name = ''Kitchen Smoke'', s_type = ''smoke'', s_state = ''alarm'',
        s_lastEvent = Some ''2024-05-01T10:00:05.000Z'',
        s_history = [\<lparr>e_time = ''2024-05-01T10:00:05.000Z'', e_type = ''alarm'',
                       e_note = ''Kitchen Smoke '' @ arrow @ '' alarm''\<rparr>]\<rparr>"

definition smokeApp :: app where
  "smokeApp = run [(TriggerSensor 5 None, ''2024-05-01T10:00:05.000Z'')] armedApp"

definition smokeModalApp :: app where
  "smokeModalApp = run [(OpenSensorModal kitchenSmokeAlarm, ''2024-05-01T10:00:07.000Z'')] smokeApp"

text \<open>
  The same, with the card of the Front Door clicked instead: the sensor selected is not
  the one that rings.
\<close>

definition doorModalApp :: app where
  "doorModalApp = run [(OpenSensorModal frontDoor, ''2024-05-01T10:00:07.000Z'')] smokeApp"

text \<open>
  The system is armed and the alarm is sounded with the Sound Alarm checkbox. No sensor
  has changed since the component mounted, so the simulation timer still calls the
  function of the first render, in which \<open>alarmOn\<close> and \<open>armed\<close> were false.
\<close>

definition soundedApp :: app where
  "soundedApp = run [(Arm, ''2024-05-01T10:00:00.000Z''),
                     (ToggleAlarm, ''2024-05-01T10:00:02.000Z'')] initialApp"

text \<open>A registry whose only sensor, the open Front Door, has a full history.\<close>

definition fullHistoryApp :: app where
  "fullHistoryApp =
     initialApp\<lparr>sensors :=
       [frontDoorOpen\<lparr>s_history := replicate 30 \<lparr>e_time = ''2024-05-01T10:00:05.000Z'',
           e_type = ''open'', e_note = ''Front Door '' @ arrow @ '' open''\<rparr>\<rparr>]\<rparr>"

text \<open>
  Storages: nothing stored; the text \<open>{}\<close>; a text that is not JSON; the number \<open>5\<close>; and
  the snapshot of the ringing alarm as the reference printer writes it.
\<close>

definition emptyStore :: storage where
  "emptyStore = Items (\<lambda>k. None)"

definition emptyObjectStore :: storage where
  "emptyObjectStore = Items ((\<lambda>k. None)(STORAGE_KEY \<mapsto> ''{}''))"

definition garbledStore :: storage where
  "garbledStore = Items ((\<lambda>k. None)(STORAGE_KEY \<mapsto> ''{sensors:''))"

definition ringingStore :: storage where
  "ringingStore =
     Items ((\<lambda>k. None)(STORAGE_KEY \<mapsto> ref_stringify (snapshot_json (snapshot_of ringingApp))))"

definition numberStore :: storage where
  "numberStore = Items ((\<lambda>k. None)(STORAGE_KEY \<mapsto> ''5''))"

section \<open>The sensor map: frame and effects\<close>

lemma updateSensor_other:
  "s_id s \<noteq> sid \<Longrightarrow> updateSensor r ar sid fs t s eff = (s, eff)"
  by (simp add: updateSensor_def)

lemma updateSensor_fst_indep:
  "fst (updateSensor r ar sid fs t s eff) = fst (updateSensor r ar sid fs t s eff')"
  by (simp add: updateSensor_def Let_def)

lemma updateSensor_fst:
  "fst (updateSensor r ar sid fs t s eff) =
     (if s_id s \<noteq> sid \<or> r then s
      else s\<lparr>s_state := newState fs s, s_lastEvent := Some t,
             s_history := take 30 (\<lparr>e_time = t, e_type = newState fs s,
                       e_note = s_name s @ '' '' @ arrow @ '' '' @ newState fs s\<rparr> # s_history s)\<rparr>)"
  by (simp add: updateSensor_def Let_def)

lemma mapSensors_Cons:
  "mapSensors f (s # ss) eff =
     (fst (f s eff) # fst (mapSensors f ss (snd (f s eff))),
      snd (mapSensors f ss (snd (f s eff))))"
  by (simp split: prod.splits)

lemma mapSensors_no_match:
  "\<forall>s\<in>set ss. s_id s \<noteq> sid \<Longrightarrow> mapSensors (updateSensor r ar sid fs t) ss eff = (ss, eff)"
  by (induction ss arbitrary: eff) (simp_all add: updateSensor_other)

lemma mapSensors_fst:
  "fst (mapSensors (updateSensor r ar sid fs t) ss eff) =
     map (\<lambda>s. fst (updateSensor r ar sid fs t s (False, []))) ss"
proof (induction ss arbitrary: eff)
  case Nil
  then show ?case by simp
next
  case (Cons s ss)
  show ?case
    using Cons.IH updateSensor_fst_indep[of r ar sid fs t s eff "(False, [])"]
    by (simp only: mapSensors_Cons fst_conv list.map)
qed

lemma mapSensors_unique:
  "distinct (map s_id ss) \<Longrightarrow> s \<in> set ss \<Longrightarrow> s_id s = sid \<Longrightarrow>
   snd (mapSensors (updateSensor r ar sid fs t) ss eff) = snd (updateSensor r ar sid fs t s eff)"
proof (induction ss arbitrary: eff)
  case Nil
  then show ?case by simp
next
  case (Cons x xs)
  show ?case
  proof (cases "x = s")
    case True
    with Cons.prems have nm: "\<forall>y\<in>set xs. s_id y \<noteq> sid" by (auto simp: image_iff)
    show ?thesis using True by (simp only: mapSensors_Cons mapSensors_no_match[OF nm] snd_conv)
  next
    case False
    with Cons.prems have *: "s \<in> set xs" "s_id x \<noteq> sid" "distinct (map s_id xs)"
      by (auto simp: image_iff)
    show ?thesis
      using Cons.IH[OF *(3) *(1) Cons.prems(3), of eff]
      by (simp only: mapSensors_Cons updateSensor_other[OF *(2)] snd_conv)
  qed
qed

lemma simulateSensorEvent_alt:
  "simulateSensorEvent sid fs t a =
     a\<lparr>sensors := fst (mapSensors (updateSensor (alarmOn a) (armed a) sid fs t)
                        (sensors a) (alarmOn a, logs a)),
       alarmOn := fst (snd (mapSensors (updateSensor (alarmOn a) (armed a) sid fs t)
                        (sensors a) (alarmOn a, logs a))),
       logs := snd (snd (mapSensors (updateSensor (alarmOn a) (armed a) sid fs t)
                        (sensors a) (alarmOn a, logs a)))\<rparr>"
  by (simp add: simulateSensorEvent_def simulateSensorEventIn_def split: prod.splits)

lemma simulate_sensors:
  "sensors (simulateSensorEvent sid fs t a) =
     map (\<lambda>s. fst (updateSensor (alarmOn a) (armed a) sid fs t s (False, []))) (sensors a)"
  by (simp add: simulateSensorEvent_alt mapSensors_fst)

lemma simulate_length: "length (sensors (simulateSensorEvent sid fs t a)) = length (sensors a)"
  by (simp add: simulate_sensors)

lemma simulate_nth:
  "i < length (sensors a) \<Longrightarrow>
   sensors (simulateSensorEvent sid fs t a) ! i =
     fst (updateSensor (alarmOn a) (armed a) sid fs t (sensors a ! i) (False, []))"
  by (simp add: simulate_sensors)

lemma simulate_effects:
  "distinct (map s_id (sensors a)) \<Longrightarrow> s \<in> set (sensors a) \<Longrightarrow> s_id s = sid \<Longrightarrow>
   (alarmOn (simulateSensorEvent sid fs t a), logs (simulateSensorEvent sid fs t a)) =
     snd (updateSensor (alarmOn a) (armed a) sid fs t s (alarmOn a, logs a))"
  using mapSensors_unique[of "sensors a" s sid "alarmOn a" "armed a" fs t "(alarmOn a, logs a)"]
  by (simp add: simulateSensorEvent_alt)

lemma simulate_other_fields:
  "armed (simulateSensorEvent sid fs t a) = armed a \<and>
   showModal (simulateSensorEvent sid fs t a) = showModal a \<and>
   selectedSensor (simulateSensorEvent sid fs t a) = selectedSensor a \<and>
   simulate (simulateSensorEvent sid fs t a) = simulate a"
  by (simp add: simulateSensorEvent_alt)

lemma simulate_no_match:
  "\<forall>s\<in>set (sensors a). s_id s \<noteq> sid \<Longrightarrow> simulateSensorEvent sid fs t a = a"
  by (simp add: simulateSensorEvent_def simulateSensorEventIn_def mapSensors_no_match)

lemma simulate_state_of_target:
  assumes "\<not> alarmOn a" and "s' \<in> set (sensors (simulateSensorEvent sid fs t a))" and "s_id s' = sid"
  shows "\<exists>s\<in>set (sensors a). s_id s = sid \<and>
           s' = s\<lparr>s_state := newState fs s, s_lastEvent := Some t,
                   s_history := take 30 (\<lparr>e_time = t, e_type = newState fs s,
                       e_note = s_name s @ '' '' @ arrow @ '' '' @ newState fs s\<rparr> # s_history s)\<rparr>"
proof -
  from assms(2) obtain s where s: "s \<in> set (sensors a)"
    and s': "s' = fst (updateSensor (alarmOn a) (armed a) sid fs t s (False, []))"
    unfolding simulate_sensors by auto
  have "s_id s = sid"
  proof (rule ccontr)
    assume "s_id s \<noteq> sid"
    then have "s' = s" using s' by (simp add: updateSensor_other)
    with assms(3) \<open>s_id s \<noteq> sid\<close> show False by simp
  qed
  with s s' assms(1) show ?thesis by (auto simp: updateSensor_fst)
qed

lemma distinct_map_eq:
  "distinct (map f xs) \<Longrightarrow> x \<in> set xs \<Longrightarrow> y \<in> set xs \<Longrightarrow> f x = f y \<Longrightarrow> x = y"
  by (meson distinct_map inj_onD)

lemma simulate_target_state:
  assumes "\<not> alarmOn a" and "distinct (map s_id (sensors a))"
    and "s \<in> set (sensors a)" and "s_id s = sid"
  shows "\<forall>s'\<in>set (sensors (simulateSensorEvent sid fs t a)).
            s_id s' = sid \<longrightarrow> s_state s' = newState fs s"
proof (intro ballI impI)
  fix s' assume "s' \<in> set (sensors (simulateSensorEvent sid fs t a))" and "s_id s' = sid"
  from simulate_state_of_target[OF assms(1) this]
  obtain x where x: "x \<in> set (sensors a)" "s_id x = sid" "s_state s' = newState fs x"
    by auto
  have "x = s" using distinct_map_eq[OF assms(2) x(1) assms(3)] x(2) assms(4) by simp
  with x(3) show "s_state s' = newState fs s" by simp
qed

lemma abnormal_set: "abnormal st \<longleftrightarrow> st \<in> {''open'', ''motion'', ''alarm'', ''alert''}"
  by (simp add: abnormal_def)

lemma updateSensor_snd_quiet:
  "s_id s = sid \<Longrightarrow>
   snd (updateSensor False ar sid fs t s (al, lg)) =
     (if ar \<and> abnormal (newState fs s)
      then (True, take 200 (\<lparr>l_message = siren @ '' ALARM TRIGGERED: '' @ s_name s @
                                      '' detected activity while system armed'', l_time = t\<rparr> #
                  take 200 (\<lparr>l_message = s_name s @ '' '' @ em_dash @ '' '' @ newState fs s,
                              l_time = t\<rparr> # lg)))
      else (al, take 200 (\<lparr>l_message = s_name s @ '' '' @ em_dash @ '' '' @ newState fs s,
                              l_time = t\<rparr> # lg)))"
  by (simp add: updateSensor_def Let_def pushLog_def changeMessage_def triggeredMessage_def)


section \<open>Every handler keeps the caps\<close>

lemma updateSensor_log_bound:
  "length (snd eff) \<le> 200 \<Longrightarrow> length (snd (snd (updateSensor r ar sid fs t s eff))) \<le> 200"
  by (simp add: updateSensor_def Let_def pushLog_def)

lemma mapSensors_log_bound:
  "length (snd eff) \<le> 200 \<Longrightarrow>
   length (snd (snd (mapSensors (updateSensor r ar sid fs t) ss eff))) \<le> 200"
proof (induction ss arbitrary: eff)
  case Nil
  then show ?case by simp
next
  case (Cons s ss)
  have "length (snd (snd (updateSensor r ar sid fs t s eff))) \<le> 200"
    by (rule updateSensor_log_bound[OF Cons.prems])
  from Cons.IH[OF this] show ?case by (simp only: mapSensors_Cons snd_conv)
qed

lemma updateSensor_history_bound:
  "length (s_history s) \<le> 30 \<Longrightarrow>
   length (s_history (fst (updateSensor r ar sid fs t s eff))) \<le> 30"
  by (simp add: updateSensor_fst)

lemma simulateIn_bounded: "bounded a \<Longrightarrow> bounded (simulateSensorEventIn r ar sid fs t a)"
proof -
  assume b: "bounded a"
  let ?m = "mapSensors (updateSensor r ar sid fs t) (sensors a) (alarmOn a, logs a)"
  have e: "simulateSensorEventIn r ar sid fs t a =
      a\<lparr>sensors := fst ?m, alarmOn := fst (snd ?m), logs := snd (snd ?m)\<rparr>"
    by (simp add: simulateSensorEventIn_def split: prod.splits)
  have "length (snd (snd ?m)) \<le> 200"
    using b mapSensors_log_bound[of "(alarmOn a, logs a)" r ar sid fs t "sensors a"]
    by (simp add: bounded_def)
  moreover have "\<forall>s\<in>set (fst ?m). length (s_history s) \<le> 30"
    using b by (auto simp: mapSensors_fst bounded_def intro: updateSensor_history_bound)
  ultimately show ?thesis by (simp add: bounded_def e)
qed

lemma simulate_bounded: "bounded a \<Longrightarrow> bounded (simulateSensorEvent sid fs t a)"
  by (simp add: simulateSensorEvent_def simulateIn_bounded)

lemma ack_bounded: "bounded a \<Longrightarrow> bounded (performSensorAck sid t a)"
  by (auto simp: bounded_def performSensorAck_def pushLog_def)

lemma exec_bounded: "bounded a \<Longrightarrow> bounded (exec c t a)"
proof (cases c)
  case (TriggerSensor i fs)
  assume "bounded a"
  then show ?thesis using TriggerSensor by (simp add: simulate_bounded)
next
  case (QuickToggle s)
  assume "bounded a"
  then show ?thesis using QuickToggle by (simp add: quickToggle_def simulate_bounded)
next
  case (AcknowledgeSensor i)
  assume "bounded a"
  then show ?thesis using AcknowledgeSensor by (simp add: ack_bounded)
next
  case (SimulationTick r ar idx)
  assume "bounded a"
  then show ?thesis using SimulationTick by (simp add: simulationTick_def simulateIn_bounded)
qed (auto simp: bounded_def armSystem_def disarmSystem_def armButton_def openSensorModal_def
       toggleAlarm_def clearLogs_def toggleSimulation_def checkSensor_def pushLog_def)

lemma run_bounded: "bounded a \<Longrightarrow> bounded (run cs a)"
proof (induction cs arbitrary: a)
  case Nil
  then show ?case by simp
next
  case (Cons c cs)
  obtain cmd t where c: "c = (cmd, t)" by (cases c) auto
  from Cons.prems have "bounded (exec cmd t a)" by (rule exec_bounded)
  from Cons.IH[OF this] show ?case by (simp add: c)
qed

lemma initialApp_bounded: "bounded initialApp"
  by (simp add: bounded_def initialApp_def initialSensors_def)

lemma pushLog_front:
  "pushLog m tm now lg =
     \<lparr>l_message = m, l_time = (case tm of None \<Rightarrow> now | Some t \<Rightarrow> if t \<noteq> [] then t else now)\<rparr>
       # take 199 lg"
  by (simp add: pushLog_def)

lemma simulate_history:
  assumes "\<not> alarmOn a" and "i < length (sensors a)" and "s_id (sensors a ! i) = sid"
  shows "s_history (sensors (simulateSensorEvent sid fs t a) ! i) =
           \<lparr>e_time = t, e_type = newState fs (sensors a ! i),
             e_note = s_name (sensors a ! i) @ '' '' @ arrow @ '' '' @ newState fs (sensors a ! i)\<rparr>
           # take 29 (s_history (sensors a ! i))"
  using assms by (simp add: simulate_nth updateSensor_fst)

section \<open>Loading and decoding\<close>

lemma decode_list_map: "(\<And>x. f (g x) = Some x) \<Longrightarrow> decode_list f (map g xs) = Some xs"
  by (induction xs) simp_all

lemma event_roundtrip: "event_of_json (event_json e) = Some e"
  by (simp add: event_of_json_def event_json_def as_str_def)

lemma log_roundtrip: "log_of_json (log_json l) = Some l"
  by (simp add: log_of_json_def log_json_def as_str_def)

lemma sensor_roundtrip: "sensor_of_json (sensor_json s) = Some s"
  by (cases "s_lastEvent s")
     (simp_all add: sensor_of_json_def sensor_json_def as_str_def decode_list_map event_roundtrip)

lemma typed_snapshot: 
  "typed \<lparr>ld_sensors = Some (JArr (map sensor_json (sn_sensors snap))),
          ld_armed = Some (JBool (sn_armed snap)),
          ld_logs = Some (JArr (map log_json (sn_logs snap)))\<rparr> = Some snap"
  by (simp add: typed_def decode_list_map sensor_roundtrip log_roundtrip)

lemma typed_defaults:
  "typed defaults = Some \<lparr>sn_sensors = initialSensors, sn_armed = False, sn_logs = []\<rparr>"
  using typed_snapshot[of "\<lparr>sn_sensors = initialSensors, sn_armed = False, sn_logs = []\<rparr>"]
  by (simp add: defaults_def)

lemma mount_nothing_stored: "app_of (mount parse emptyStore) = Some initialApp"
  by (simp add: app_of_def mount_def load_def loadField_def getItem_def emptyStore_def
        typed_snapshot[of "\<lparr>sn_sensors = initialSensors, sn_armed = False, sn_logs = []\<rparr>",
          simplified]
        defaults_def initialApp_def)

lemma loadField_fallback:
  "getItem st STORAGE_KEY = Throws \<or> getItem st STORAGE_KEY = Returns None \<or>
   getItem st STORAGE_KEY = Returns (Some []) \<or>
   (\<exists>saved. getItem st STORAGE_KEY = Returns (Some saved) \<and>
      (parse saved = Throws \<or> parse saved = Returns JNull)) \<Longrightarrow>
   loadField parse st field dflt = dflt"
  by (auto simp: loadField_def)

lemma loadField_parsed:
  "getItem st STORAGE_KEY = Returns (Some saved) \<Longrightarrow> saved \<noteq> [] \<Longrightarrow>
   parse saved = Returns v \<Longrightarrow> v \<noteq> JNull \<Longrightarrow>
   loadField parse st field dflt = (case v of JObj kvs \<Rightarrow> map_of kvs field | _ \<Rightarrow> None)"
  by (cases v) (simp_all add: loadField_def)

lemma load_after_persist:
  assumes "parse (stringify (snapshot_json snap)) = Returns (snapshot_json snap)"
    and "stringify (snapshot_json snap) \<noteq> []"
  shows "load parse (Items (m(STORAGE_KEY \<mapsto> stringify (snapshot_json snap)))) =
           \<lparr>ld_sensors = Some (JArr (map sensor_json (sn_sensors snap))),
            ld_armed = Some (JBool (sn_armed snap)),
            ld_logs = Some (JArr (map log_json (sn_logs snap)))\<rparr>"
proof -
  let ?st = "Items (m(STORAGE_KEY \<mapsto> stringify (snapshot_json snap)))"
  have g: "getItem ?st STORAGE_KEY = Returns (Some (stringify (snapshot_json snap)))"
    by (simp add: getItem_def)
  have f: "loadField parse ?st field dflt =
      map_of [(''sensors'', JArr (map sensor_json (sn_sensors snap))),
              (''armed'', JBool (sn_armed snap)),
              (''logs'', JArr (map log_json (sn_logs snap)))] field" for field dflt
    using loadField_parsed[OF g assms(2), of parse "snapshot_json snap" field dflt] assms(1)
    by (simp add: snapshot_json_def)
  show ?thesis by (simp add: load_def f)
qed

section \<open>The scenarios, evaluated\<close>

lemma armedApp_eq:
  "armedApp = initialApp\<lparr>armed := True,
      logs := [\<lparr>l_message = ''System armed'', l_time = ''2024-05-01T10:00:00.000Z''\<rparr>]\<rparr>"
  by code_simp

lemma ringingApp_from_armed:
  "simulateSensorEvent 1 None ''2024-05-01T10:00:05.000Z'' armedApp = ringingApp"
  by code_simp

lemma ringingApp_sensors: "sensors ringingApp = frontDoorOpen # tl initialSensors"
  by code_simp

lemma ringingApp_alarm: "alarmOn ringingApp"
  by code_simp

lemma ringingApp_armed: "armed ringingApp"
  by code_simp

lemma ringingApp_messages: "map l_message (logs ringingApp) = 
   [siren @ '' ALARM TRIGGERED: Front Door detected activity while system armed'',
    ''Front Door '' @ em_dash @ '' open'', ''System armed'']"
  by code_simp

lemma smokeApp_sensors: "sensors smokeApp = butlast initialSensors @ [kitchenSmokeAlarm]"
  by code_simp

lemma smokeApp_flags: "alarmOn smokeApp \<and> armed smokeApp \<and> selectedSensor smokeApp = None"
  by code_simp

lemma smokeModalApp_eq: "smokeModalApp = smokeApp\<lparr>selectedSensor := Some kitchenSmokeAlarm, showModal := True\<rparr>"
  by (simp add: smokeModalApp_def openSensorModal_def)

lemma ref_roundtrip_ringing:
  "ref_parse (ref_stringify (snapshot_json (snapshot_of ringingApp))) =
     Returns (snapshot_json (snapshot_of ringingApp))"
  by code_simp

lemma ref_parse_samples:
  "ref_parse ''{}'' = Returns (JObj [])" "ref_parse ''{sensors:'' = Throws"
  by code_simp+

lemma ref_parse_number: "ref_parse ''5'' = Returns (JNum 5)"
  by code_simp

lemma ref_stringify_nonempty: "ref_stringify (snapshot_json snap) \<noteq> []"
  by (simp add: snapshot_json_def)

lemma soundedApp_tick:
  "alarmOn soundedApp \<and> armed soundedApp \<and> sensors soundedApp = initialSensors \<and>
   alarmOn (run [(SimulationTick False False 0, ''2024-05-01T10:00:05.000Z'')] soundedApp) \<and>
   s_state (sensors (run [(SimulationTick False False 0, ''2024-05-01T10:00:05.000Z'')] soundedApp) ! 0)
     = ''open'' \<and>
   map l_message (logs (run [(SimulationTick False False 0, ''2024-05-01T10:00:05.000Z'')] soundedApp)) =
     [''Front Door '' @ em_dash @ '' open'', ''Alarm sounded'', ''System armed'']"
  by code_simp

lemma armedApp_tick:
  "\<not> alarmOn (run [(SimulationTick False False 0, ''2024-05-01T10:00:05.000Z'')] armedApp) \<and>
   s_state (sensors (run [(SimulationTick False False 0, ''2024-05-01T10:00:05.000Z'')] armedApp) ! 0)
     = ''open'' \<and>
   map l_message (logs (run [(SimulationTick False False 0, ''2024-05-01T10:00:05.000Z'')] armedApp)) =
     [''Front Door '' @ em_dash @ '' open'', ''System armed'']"
  by code_simp

lemma doorModalApp_ack:
  "selectedSensor doorModalApp = Some frontDoor \<and>
   map l_message (logs (performSensorAck 5 ''2024-05-01T10:00:09.000Z'' doorModalApp)) =
     [''Acknowledged Front Door'',
      siren @ '' ALARM TRIGGERED: Kitchen Smoke detected activity while system armed'',
      ''Kitchen Smoke '' @ em_dash @ '' alarm'', ''System armed''] \<and>
   s_state (sensors (performSensorAck 5 ''2024-05-01T10:00:09.000Z'' doorModalApp) ! 4) = ''ok'' \<and>
   \<not> alarmOn (performSensorAck 5 ''2024-05-01T10:00:09.000Z'' doorModalApp)"
  by code_simp

lemma smokeApp_ack:
  "map l_message (logs (performSensorAck 5 ''2024-05-01T10:00:09.000Z'' smokeApp)) =
     [''Acknowledged undefined'',
      siren @ '' ALARM TRIGGERED: Kitchen Smoke detected activity while system armed'',
      ''Kitchen Smoke '' @ em_dash @ '' alarm'', ''System armed''] \<and>
   s_state (sensors (performSensorAck 5 ''2024-05-01T10:00:09.000Z'' smokeApp) ! 4) = ''ok'' \<and>
   \<not> alarmOn (performSensorAck 5 ''2024-05-01T10:00:09.000Z'' smokeApp)"
  by code_simp

section \<open>Silencing the alarm by a trigger\<close>

text \<open>
  Claim C1, for a call that reads the current \<open>alarmOn\<close>, as a click on a Trigger button
  does, with the updater run once, as in a production build. When \<open>alarmOn\<close> is true and
  the registry (whose ids are unique) holds a sensor with the id given,
  \<open>simulateSensorEvent\<close> sets \<open>alarmOn\<close> to false, leaves every sensor record as it was
  (state, history and lastEvent of the targeted one included) and puts exactly one entry
  in front of the log, capped at 200, whatever the sensor's type and the forced state
  are. The entry's message is the glyph U+1F515 and a space, then \<open>Alarm stopped manually
  via\<close> and the sensor's name.
\<close>

theorem silence_on_retrigger:
  assumes "alarmOn a" and "distinct (map s_id (sensors a))"
    and "s \<in> set (sensors a)" and "s_id s = sensorId"
  shows "alarmOn (simulateSensorEvent sensorId forcedState now a) = False \<and>
         sensors (simulateSensorEvent sensorId forcedState now a) = sensors a \<and>
         logs (simulateSensorEvent sensorId forcedState now a) =
           take 200 (\<lparr>l_message = bell_off @ '' Alarm stopped manually via '' @ s_name s,
                       l_time = now\<rparr> # logs a) \<and>
         armed (simulateSensorEvent sensorId forcedState now a) = armed a"
proof -
  have "sensors (simulateSensorEvent sensorId forcedState now a) = sensors a"
    using assms(1) by (simp add: simulate_sensors updateSensor_def map_idI)
  moreover have "(alarmOn (simulateSensorEvent sensorId forcedState now a),
                  logs (simulateSensorEvent sensorId forcedState now a)) =
      (False, take 200 (\<lparr>l_message = bell_off @ '' Alarm stopped manually via '' @ s_name s,
                       l_time = now\<rparr> # logs a))"
    using simulate_effects[OF assms(2,3,4)] assms(1,4)
    by (simp add: updateSensor_def pushLog_def silencedMessage_def)
  ultimately show ?thesis by (simp add: simulate_other_fields)
qed

text \<open>The theorem at the ringing alarm of the scenario, with a forced state.\<close>

theorem silence_on_retrigger_witness:
  "alarmOn ringingApp \<and> distinct (map s_id (sensors ringingApp)) \<and>
   frontDoorOpen \<in> set (sensors ringingApp) \<and> s_id frontDoorOpen = 1 \<and>
   alarmOn (simulateSensorEvent 1 (Some ''closed'') ''2024-05-01T10:00:09.000Z'' ringingApp) = False \<and>
   sensors (simulateSensorEvent 1 (Some ''closed'') ''2024-05-01T10:00:09.000Z'' ringingApp) = sensors ringingApp \<and>
   logs (simulateSensorEvent 1 (Some ''closed'') ''2024-05-01T10:00:09.000Z'' ringingApp) =
     take 200 (\<lparr>l_message = bell_off @ '' Alarm stopped manually via '' @ s_name frontDoorOpen,
                 l_time = ''2024-05-01T10:00:09.000Z''\<rparr> # logs ringingApp) \<and>
   armed (simulateSensorEvent 1 (Some ''closed'') ''2024-05-01T10:00:09.000Z'' ringingApp) = armed ringingApp"
proof -
  have h1: "alarmOn ringingApp" by (rule ringingApp_alarm)
  have h2: "distinct (map s_id (sensors ringingApp))"
    by (simp add: ringingApp_sensors frontDoorOpen_def initialSensors_def)
  have h3: "frontDoorOpen \<in> set (sensors ringingApp)" by (simp add: ringingApp_sensors)
  have h4: "s_id frontDoorOpen = 1" by (simp add: frontDoorOpen_def)
  show ?thesis
    using h1 h2 h3 h4 silence_on_retrigger[OF h1 h2 h3 h4, of "Some ''closed''" "''2024-05-01T10:00:09.000Z''"]
    by simp
qed

text \<open>
  Claim C1 as the specification words it fails twice. It gives the message without the
  glyph: in the scenario no entry of the log has that message after the call. And it
  covers every call: with the alarm sounded by the checkbox, a tick of the simulation
  timer, which still holds the flags of the first render, leaves \<open>alarmOn\<close> true and opens
  the Front Door.
\<close>

theorem silence_counterexample:
  "alarmOn ringingApp \<and> s_id frontDoorOpen = 1 \<and> s_name frontDoorOpen = ''Front Door'' \<and>
   frontDoorOpen \<in> set (sensors ringingApp) \<and>
   ''Alarm stopped manually via Front Door'' \<notin>
     set (map l_message (logs (simulateSensorEvent 1 None ''2024-05-01T10:00:09.000Z'' ringingApp))) \<and>
   alarmOn soundedApp \<and> s_id (sensors soundedApp ! 0) = 1 \<and>
   s_state (sensors soundedApp ! 0) = ''closed'' \<and>
   alarmOn (run [(SimulationTick False False 0, ''2024-05-01T10:00:05.000Z'')] soundedApp) \<and>
   s_state (sensors (run [(SimulationTick False False 0, ''2024-05-01T10:00:05.000Z'')] soundedApp) ! 0)
     = ''open''"
proof -
  have m: "map l_message (logs (simulateSensorEvent 1 None ''2024-05-01T10:00:09.000Z'' ringingApp)) =
     [bell_off @ '' Alarm stopped manually via Front Door'',
      siren @ '' ALARM TRIGGERED: Front Door detected activity while system armed'',
      ''Front Door '' @ em_dash @ '' open'', ''System armed'']"
    by code_simp
  have g1: "alarmOn ringingApp" by (rule ringingApp_alarm)
  have g2: "s_id frontDoorOpen = 1" and g3: "s_name frontDoorOpen = ''Front Door''"
    by (simp_all add: frontDoorOpen_def)
  have g4: "frontDoorOpen \<in> set (sensors ringingApp)" by (simp add: ringingApp_sensors)
  have g5: "''Alarm stopped manually via Front Door'' \<notin>
     set (map l_message (logs (simulateSensorEvent 1 None ''2024-05-01T10:00:09.000Z'' ringingApp)))"
    unfolding m by (simp add: bell_off_def siren_def em_dash_def)
  have s0: "s_id (sensors soundedApp ! 0) = 1" and s1: "s_state (sensors soundedApp ! 0) = ''closed''"
    using soundedApp_tick by (simp_all add: initialSensors_def)
  note k = soundedApp_tick[THEN conjunct2, THEN conjunct2, THEN conjunct2]
  from g1 g2 g3 g4 g5 soundedApp_tick[THEN conjunct1] s0 s1 k[THEN conjunct1]
    k[THEN conjunct2, THEN conjunct1]
  show ?thesis by (intro conjI)
qed

section \<open>The arming check\<close>

text \<open>
  Claim C2, for a call that reads the current \<open>alarmOn\<close> and \<open>armed\<close>, as a click on a
  Trigger button does, with the updater run once, as in a production build. When
  \<open>alarmOn\<close> is false at the call and the registry (ids unique) holds a sensor with the id
  given, the sensor goes to \<open>newState\<close>. If \<open>armed\<close> is true and the new state is one of
  open, motion, alarm and alert, then \<open>alarmOn\<close> is true afterwards and two entries are put
  in front of the log: the state change, then, in front of it, the glyph U+1F6A8 and a
  space followed by \<open>ALARM TRIGGERED: name detected activity while system armed\<close>. If
  \<open>armed\<close> is false or the new state is none of the four, \<open>alarmOn\<close> is left as it was and
  only the state change is logged.
\<close>

theorem arming_check:
  assumes "\<not> alarmOn a" and "distinct (map s_id (sensors a))"
    and "s \<in> set (sensors a)" and "s_id s = sensorId"
  shows "(\<forall>s'\<in>set (sensors (simulateSensorEvent sensorId forcedState now a)).
            s_id s' = sensorId \<longrightarrow> s_state s' = newState forcedState s) \<and>
         (armed a \<and> newState forcedState s \<in> {''open'', ''motion'', ''alarm'', ''alert''} \<longrightarrow>
            alarmOn (simulateSensorEvent sensorId forcedState now a) \<and>
            logs (simulateSensorEvent sensorId forcedState now a) =
              take 200 (\<lparr>l_message = siren @ '' ALARM TRIGGERED: '' @ s_name s @
                                      '' detected activity while system armed'',
                          l_time = now\<rparr> #
                take 200 (\<lparr>l_message = s_name s @ '' '' @ em_dash @ '' '' @ newState forcedState s,
                            l_time = now\<rparr> # logs a))) \<and>
         (\<not> armed a \<or> newState forcedState s \<notin> {''open'', ''motion'', ''alarm'', ''alert''} \<longrightarrow>
            alarmOn (simulateSensorEvent sensorId forcedState now a) = alarmOn a \<and>
            logs (simulateSensorEvent sensorId forcedState now a) =
              take 200 (\<lparr>l_message = s_name s @ '' '' @ em_dash @ '' '' @ newState forcedState s,
                          l_time = now\<rparr> # logs a))"
proof -
  let ?a' = "simulateSensorEvent sensorId forcedState now a"
  have eff: "(alarmOn ?a', logs ?a') =
      snd (updateSensor False (armed a) sensorId forcedState now s (alarmOn a, logs a))"
    using simulate_effects[OF assms(2,3,4), of forcedState now] assms(1) by simp
  note q = updateSensor_snd_quiet[OF assms(4), of "armed a" forcedState now "alarmOn a" "logs a"]
  show ?thesis
  proof (intro conjI impI)
    show "\<forall>s'\<in>set (sensors ?a'). s_id s' = sensorId \<longrightarrow> s_state s' = newState forcedState s"
      by (rule simulate_target_state[OF assms])
  next
    assume h: "armed a \<and> newState forcedState s \<in> {''open'', ''motion'', ''alarm'', ''alert''}"
    then have "armed a \<and> abnormal (newState forcedState s)" by (simp only: abnormal_set)
    with eff q have e: "(alarmOn ?a', logs ?a') =
       (True, take 200 (\<lparr>l_message = siren @ '' ALARM TRIGGERED: '' @ s_name s @
                                      '' detected activity while system armed'', l_time = now\<rparr> #
                  take 200 (\<lparr>l_message = s_name s @ '' '' @ em_dash @ '' '' @ newState forcedState s,
                              l_time = now\<rparr> # logs a)))"
      by (simp only: if_True simp_thms)
    from e show "alarmOn ?a'" by (simp only: prod.inject)
    from e show "logs ?a' = take 200 (\<lparr>l_message = siren @ '' ALARM TRIGGERED: '' @ s_name s @
                                      '' detected activity while system armed'', l_time = now\<rparr> #
                  take 200 (\<lparr>l_message = s_name s @ '' '' @ em_dash @ '' '' @ newState forcedState s,
                              l_time = now\<rparr> # logs a))"
      by (simp only: prod.inject)
  next
    assume h: "\<not> armed a \<or> newState forcedState s \<notin> {''open'', ''motion'', ''alarm'', ''alert''}"
    then have "\<not> (armed a \<and> abnormal (newState forcedState s))"
      by (simp only: abnormal_set de_Morgan_conj)
    with eff q have e: "(alarmOn ?a', logs ?a') =
       (alarmOn a, take 200 (\<lparr>l_message = s_name s @ '' '' @ em_dash @ '' '' @ newState forcedState s,
                              l_time = now\<rparr> # logs a))"
      by (simp only: if_False simp_thms)
    from e show "alarmOn ?a' = alarmOn a" by (simp only: prod.inject)
    from e show "logs ?a' = take 200 (\<lparr>l_message = s_name s @ '' '' @ em_dash @ '' '' @ newState forcedState s,
                              l_time = now\<rparr> # logs a)"
      by (simp only: prod.inject)
  qed
qed

text \<open>
  The theorem when the Front Door is triggered: at the armed system of the scenario,
  where the alarm starts, and at the first start, where the system is not armed.
\<close>

theorem arming_check_witness:
  "\<not> alarmOn armedApp \<and> distinct (map s_id (sensors armedApp)) \<and>
   frontDoor \<in> set (sensors armedApp) \<and> s_id frontDoor = 1 \<and>
   armed armedApp \<and> newState None frontDoor = ''open'' \<and>
   alarmOn (simulateSensorEvent 1 None ''2024-05-01T10:00:05.000Z'' armedApp) \<and>
   logs (simulateSensorEvent 1 None ''2024-05-01T10:00:05.000Z'' armedApp) =
     take 200 (\<lparr>l_message = siren @ '' ALARM TRIGGERED: '' @ s_name frontDoor @
                              '' detected activity while system armed'',
                 l_time = ''2024-05-01T10:00:05.000Z''\<rparr> #
       take 200 (\<lparr>l_message = s_name frontDoor @ '' '' @ em_dash @ '' '' @ newState None frontDoor,
                   l_time = ''2024-05-01T10:00:05.000Z''\<rparr> # logs armedApp)) \<and>
   \<not> alarmOn initialApp \<and> distinct (map s_id (sensors initialApp)) \<and>
   frontDoor \<in> set (sensors initialApp) \<and> \<not> armed initialApp \<and>
   alarmOn (simulateSensorEvent 1 None ''2024-05-01T10:00:05.000Z'' initialApp) = alarmOn initialApp \<and>
   logs (simulateSensorEvent 1 None ''2024-05-01T10:00:05.000Z'' initialApp) =
     take 200 (\<lparr>l_message = s_name frontDoor @ '' '' @ em_dash @ '' '' @ newState None frontDoor,
                 l_time = ''2024-05-01T10:00:05.000Z''\<rparr> # logs initialApp)"
proof -
  let ?t = "''2024-05-01T10:00:05.000Z''"
  have h1: "\<not> alarmOn armedApp" by (simp add: armedApp_eq initialApp_def)
  have h2: "distinct (map s_id (sensors armedApp))"
    by (simp add: armedApp_eq initialApp_def initialSensors_def)
  have h3: "frontDoor \<in> set (sensors armedApp)"
    by (simp add: armedApp_eq initialApp_def initialSensors_def frontDoor_def)
  have h4: "s_id frontDoor = 1" by (simp add: frontDoor_def)
  have h5: "armed armedApp" by (simp add: armedApp_eq)
  have h6: "newState None frontDoor = ''open''"
    by (simp add: newState_def toggleState_def frontDoor_def)
  have g1: "\<not> alarmOn initialApp" and g5: "\<not> armed initialApp" by (simp_all add: initialApp_def)
  have g2: "distinct (map s_id (sensors initialApp))"
    by (simp add: initialApp_def initialSensors_def)
  have g3: "frontDoor \<in> set (sensors initialApp)"
    by (simp add: initialApp_def initialSensors_def frontDoor_def)
  note t = arming_check[OF h1 h2 h3 h4, where forcedState = None and now = ?t]
  note u = arming_check[OF g1 g2 g3 h4, where forcedState = None and now = ?t]
  have ab: "armed armedApp \<and> newState None frontDoor \<in> {''open'', ''motion'', ''alarm'', ''alert''}"
    using h5 h6 by simp
  have nb: "\<not> armed initialApp \<or> newState None frontDoor \<notin> {''open'', ''motion'', ''alarm'', ''alert''}"
    using g5 by (rule disjI1)
  note t2 = mp[OF t[THEN conjunct2, THEN conjunct1] ab]
  note u3 = mp[OF u[THEN conjunct2, THEN conjunct2] nb]
  from h1 h2 h3 h4 h5 h6 t2[THEN conjunct1] t2[THEN conjunct2] g1 g2 g3 g5
    u3[THEN conjunct1] u3[THEN conjunct2]
  show ?thesis by (intro conjI)
qed

text \<open>
  Claim C2 as the specification words it fails twice. It gives the message without the
  glyph: in the scenario no entry of the log has that message after the call. And it
  covers every transition: right after arming, a tick of the simulation timer, which
  still holds the flags of the first render, opens the Front Door of the armed system
  and neither starts the alarm nor logs that it was triggered.
\<close>

theorem triggered_counterexample:
  "armed armedApp \<and> \<not> alarmOn armedApp \<and> frontDoor \<in> set (sensors armedApp) \<and>
   s_id frontDoor = 1 \<and> s_name frontDoor = ''Front Door'' \<and>
   newState None frontDoor = ''open'' \<and>
   ''ALARM TRIGGERED: Front Door detected activity while system armed'' \<notin>
     set (map l_message (logs (simulateSensorEvent 1 None ''2024-05-01T10:00:05.000Z'' armedApp))) \<and>
   s_state (sensors (run [(SimulationTick False False 0, ''2024-05-01T10:00:05.000Z'')] armedApp) ! 0)
     = ''open'' \<and>
   \<not> alarmOn (run [(SimulationTick False False 0, ''2024-05-01T10:00:05.000Z'')] armedApp) \<and>
   map l_message (logs (run [(SimulationTick False False 0, ''2024-05-01T10:00:05.000Z'')] armedApp)) =
     [''Front Door '' @ em_dash @ '' open'', ''System armed'']"
proof -
  have a1: "armed armedApp" and a2: "\<not> alarmOn armedApp" and a3: "frontDoor \<in> set (sensors armedApp)"
    by (simp_all add: armedApp_eq initialApp_def initialSensors_def frontDoor_def)
  have a4: "s_id frontDoor = 1" and a5: "s_name frontDoor = ''Front Door''"
    and a6: "newState None frontDoor = ''open''"
    by (simp_all add: newState_def toggleState_def frontDoor_def)
  have a7: "''ALARM TRIGGERED: Front Door detected activity while system armed'' \<notin>
     set (map l_message (logs (simulateSensorEvent 1 None ''2024-05-01T10:00:05.000Z'' armedApp)))"
    by (simp add: ringingApp_from_armed ringingApp_messages siren_def em_dash_def)
  from a1 a2 a3 a4 a5 a6 a7 armedApp_tick[THEN conjunct2, THEN conjunct1]
    armedApp_tick[THEN conjunct1] armedApp_tick[THEN conjunct2, THEN conjunct2]
  show ?thesis by (intro conjI)
qed

section \<open>States stay in the domain of the sensor's type\<close>




section \<open>Acknowledging a sensor\<close>

text \<open>
  What \<open>performSensorAck\<close> does to a sensor with the id given: it resets the state by type
  and changes no other field, sets \<open>alarmOn\<close> to false and leaves \<open>armed\<close> as it was. The
  entry it logs names the selected sensor, whichever sensor is acknowledged.
\<close>

lemma acknowledge_resets:
  assumes "i < length (sensors a)" and "s_id (sensors a ! i) = sensorId"
  shows "sensors (performSensorAck sensorId now a) ! i =
           (sensors a ! i)\<lparr>s_state := s_state (sensors (performSensorAck sensorId now a) ! i)\<rparr> \<and>
         (s_type (sensors a ! i) = ''motion'' \<longrightarrow>
            s_state (sensors (performSensorAck sensorId now a) ! i) = ''idle'') \<and>
         (s_type (sensors a ! i) = ''smoke'' \<longrightarrow>
            s_state (sensors (performSensorAck sensorId now a) ! i) = ''ok'') \<and>
         (s_type (sensors a ! i) = ''camera'' \<longrightarrow>
            s_state (sensors (performSensorAck sensorId now a) ! i) = ''ok'') \<and>
         (s_type (sensors a ! i) = ''door'' \<or> s_type (sensors a ! i) = ''window'' \<longrightarrow>
            s_state (sensors (performSensorAck sensorId now a) ! i) = ''closed'') \<and>
         logs (performSensorAck sensorId now a) =
           take 200 (\<lparr>l_message = ''Acknowledged '' @
                         (case selectedSensor a of None \<Rightarrow> ''undefined'' | Some x \<Rightarrow> s_name x),
                       l_time = now\<rparr> # logs a) \<and>
         (map_option s_name (selectedSensor a) = Some (s_name (sensors a ! i)) \<longrightarrow>
            logs (performSensorAck sensorId now a) =
              take 200 (\<lparr>l_message = ''Acknowledged '' @ s_name (sensors a ! i), l_time = now\<rparr>
                          # logs a)) \<and>
         alarmOn (performSensorAck sensorId now a) = False \<and>
         armed (performSensorAck sensorId now a) = armed a"
proof -
  have s: "sensors (performSensorAck sensorId now a) ! i =
             (sensors a ! i)\<lparr>s_state := normalState (s_type (sensors a ! i))\<rparr>"
    using assms by (simp add: performSensorAck_def)
  have l: "logs (performSensorAck sensorId now a) =
           take 200 (\<lparr>l_message = ''Acknowledged '' @
                         (case selectedSensor a of None \<Rightarrow> ''undefined'' | Some x \<Rightarrow> s_name x),
                       l_time = now\<rparr> # logs a)"
    by (simp add: performSensorAck_def pushLog_def selectedName_def)
  have f: "alarmOn (performSensorAck sensorId now a) = False"
          "armed (performSensorAck sensorId now a) = armed a"
    by (simp_all add: performSensorAck_def)
  have n: "map_option s_name (selectedSensor a) = Some (s_name (sensors a ! i)) \<longrightarrow>
            logs (performSensorAck sensorId now a) =
              take 200 (\<lparr>l_message = ''Acknowledged '' @ s_name (sensors a ! i), l_time = now\<rparr>
                          # logs a)"
    unfolding l by (cases "selectedSensor a") simp_all
  have st: "s_state (sensors (performSensorAck sensorId now a) ! i) = normalState (s_type (sensors a ! i))"
    by (simp add: s)
  have t: "(s_type (sensors a ! i) = ''motion'' \<longrightarrow> normalState (s_type (sensors a ! i)) = ''idle'')"
          "(s_type (sensors a ! i) = ''smoke'' \<longrightarrow> normalState (s_type (sensors a ! i)) = ''ok'')"
          "(s_type (sensors a ! i) = ''camera'' \<longrightarrow> normalState (s_type (sensors a ! i)) = ''ok'')"
          "(s_type (sensors a ! i) = ''door'' \<or> s_type (sensors a ! i) = ''window'' \<longrightarrow>
               normalState (s_type (sensors a ! i)) = ''closed'')"
    by (auto simp: normalState_def)
  show ?thesis
    unfolding st using s l f n t by (simp only: simp_thms)
qed

text \<open>
  In the second scenario: the system is armed, the alarm rings, and the Kitchen Smoke
  sensor, in state \<open>alarm\<close>, is the one selected.
\<close>

lemma acknowledge_resets_selected:
  "(4::nat) < length (sensors smokeModalApp) \<and> s_id (sensors smokeModalApp ! 4) = 5 \<and>
   s_type (sensors smokeModalApp ! 4) = ''smoke'' \<and> s_state (sensors smokeModalApp ! 4) = ''alarm'' \<and>
   s_name (sensors smokeModalApp ! 4) = ''Kitchen Smoke'' \<and>
   map_option s_name (selectedSensor smokeModalApp) = Some (s_name (sensors smokeModalApp ! 4)) \<and>
   alarmOn smokeModalApp \<and> armed smokeModalApp \<and>
   s_state (sensors (performSensorAck 5 ''2024-05-01T10:00:09.000Z'' smokeModalApp) ! 4) = ''ok'' \<and>
   logs (performSensorAck 5 ''2024-05-01T10:00:09.000Z'' smokeModalApp) =
     take 200 (\<lparr>l_message = ''Acknowledged '' @ s_name (sensors smokeModalApp ! 4),
                 l_time = ''2024-05-01T10:00:09.000Z''\<rparr> # logs smokeModalApp) \<and>
   alarmOn (performSensorAck 5 ''2024-05-01T10:00:09.000Z'' smokeModalApp) = False \<and>
   armed (performSensorAck 5 ''2024-05-01T10:00:09.000Z'' smokeModalApp) = armed smokeModalApp"
proof -
  have s4: "sensors smokeModalApp ! 4 = kitchenSmokeAlarm"
    by (simp add: smokeModalApp_eq smokeApp_sensors initialSensors_def)
  have h1: "(4::nat) < length (sensors smokeModalApp)"
    by (simp add: smokeModalApp_eq smokeApp_sensors initialSensors_def)
  have h2: "s_id (sensors smokeModalApp ! 4) = 5" by (simp add: s4 kitchenSmokeAlarm_def)
  have h3: "map_option s_name (selectedSensor smokeModalApp) = Some (s_name (sensors smokeModalApp ! 4))"
    unfolding s4 by (simp add: smokeModalApp_eq)
  have k1: "s_type (sensors smokeModalApp ! 4) = ''smoke''"
    and k2: "s_state (sensors smokeModalApp ! 4) = ''alarm''"
    and k3: "s_name (sensors smokeModalApp ! 4) = ''Kitchen Smoke''"
    by (simp_all add: s4 kitchenSmokeAlarm_def)
  have f1: "alarmOn smokeModalApp" and f2: "armed smokeModalApp"
    using smokeApp_flags by (simp_all add: smokeModalApp_eq)
  note th = acknowledge_resets[OF h1 h2, of "''2024-05-01T10:00:09.000Z''"]
  note tl2 = th[THEN conjunct2, THEN conjunct2]
  note tl6 = tl2[THEN conjunct2, THEN conjunct2, THEN conjunct2, THEN conjunct2]
  have c1: "s_state (sensors (performSensorAck 5 ''2024-05-01T10:00:09.000Z'' smokeModalApp) ! 4) = ''ok''"
    by (rule tl2[THEN conjunct1, rule_format, OF k1])
  have c2: "logs (performSensorAck 5 ''2024-05-01T10:00:09.000Z'' smokeModalApp) =
     take 200 (\<lparr>l_message = ''Acknowledged '' @ s_name (sensors smokeModalApp ! 4),
                 l_time = ''2024-05-01T10:00:09.000Z''\<rparr> # logs smokeModalApp)"
    by (rule tl6[THEN conjunct1, rule_format, OF h3])
  have c3: "alarmOn (performSensorAck 5 ''2024-05-01T10:00:09.000Z'' smokeModalApp) = False"
    by (rule tl6[THEN conjunct2, THEN conjunct1])
  have c4: "armed (performSensorAck 5 ''2024-05-01T10:00:09.000Z'' smokeModalApp) = armed smokeModalApp"
    by (rule tl6[THEN conjunct2, THEN conjunct2])
  from h1 h2 k1 k2 k3 h3 f1 f2 c1 c2 c3 c4 show ?thesis
    by (intro conjI)
qed

text \<open>
  Claim C4 fails on the code. The Kitchen Smoke sensor, in state \<open>alarm\<close>, is acknowledged:
  its state becomes \<open>ok\<close> and \<open>alarmOn\<close> false, as the claim says, but the entry logged is
  \<open>Acknowledged undefined\<close> when no sensor is selected, and \<open>Acknowledged Front Door\<close> when
  the Front Door is. No entry names the Kitchen Smoke sensor.
\<close>

theorem acknowledge_logs_selected_name:
  "s_id (sensors smokeApp ! 4) = 5 \<and> s_name (sensors smokeApp ! 4) = ''Kitchen Smoke'' \<and>
   s_state (sensors smokeApp ! 4) = ''alarm'' \<and> selectedSensor smokeApp = None \<and>
   map l_message (logs (performSensorAck 5 ''2024-05-01T10:00:09.000Z'' smokeApp)) =
     ''Acknowledged undefined'' # map l_message (logs smokeApp) \<and>
   ''Acknowledged Kitchen Smoke'' \<notin>
     set (map l_message (logs (performSensorAck 5 ''2024-05-01T10:00:09.000Z'' smokeApp))) \<and>
   sensors doorModalApp = sensors smokeApp \<and> selectedSensor doorModalApp = Some frontDoor \<and>
   map l_message (logs (performSensorAck 5 ''2024-05-01T10:00:09.000Z'' doorModalApp)) =
     ''Acknowledged Front Door'' # map l_message (logs smokeApp) \<and>
   s_state (sensors (performSensorAck 5 ''2024-05-01T10:00:09.000Z'' smokeApp) ! 4) = ''ok'' \<and>
   alarmOn (performSensorAck 5 ''2024-05-01T10:00:09.000Z'' smokeApp) = False"
proof -
  have s4: "sensors smokeApp ! 4 = kitchenSmokeAlarm"
    by (simp add: smokeApp_sensors initialSensors_def)
  have m: "map l_message (logs smokeApp) =
     [siren @ '' ALARM TRIGGERED: Kitchen Smoke detected activity while system armed'',
      ''Kitchen Smoke '' @ em_dash @ '' alarm'', ''System armed'']"
    by code_simp
  have b1: "s_id (sensors smokeApp ! 4) = 5" and b2: "s_name (sensors smokeApp ! 4) = ''Kitchen Smoke''"
    and b3: "s_state (sensors smokeApp ! 4) = ''alarm''"
    by (simp_all add: s4 kitchenSmokeAlarm_def)
  have b4: "selectedSensor smokeApp = None" using smokeApp_flags by simp
  have b5: "map l_message (logs (performSensorAck 5 ''2024-05-01T10:00:09.000Z'' smokeApp)) =
     ''Acknowledged undefined'' # map l_message (logs smokeApp)"
    unfolding m using smokeApp_ack by simp
  have b6: "''Acknowledged Kitchen Smoke'' \<notin>
     set (map l_message (logs (performSensorAck 5 ''2024-05-01T10:00:09.000Z'' smokeApp)))"
    unfolding b5 m by (simp add: siren_def em_dash_def)
  have b7: "sensors doorModalApp = sensors smokeApp"
    by (simp add: doorModalApp_def openSensorModal_def)
  have b8: "selectedSensor doorModalApp = Some frontDoor"
    by (simp add: doorModalApp_def openSensorModal_def)
  have b9: "map l_message (logs (performSensorAck 5 ''2024-05-01T10:00:09.000Z'' doorModalApp)) =
     ''Acknowledged Front Door'' # map l_message (logs smokeApp)"
    unfolding m using doorModalApp_ack by simp
  have b10: "s_state (sensors (performSensorAck 5 ''2024-05-01T10:00:09.000Z'' smokeApp) ! 4) = ''ok''"
    using smokeApp_ack by simp
  have b11: "alarmOn (performSensorAck 5 ''2024-05-01T10:00:09.000Z'' smokeApp) = False"
    using smokeApp_ack by simp
  from b1 b2 b3 b4 b5 b6 b7 b8 b9 b10 b11 show ?thesis by (intro conjI)
qed

section \<open>The caps on histories and on the log\<close>

text \<open>
  Claim C5. The caps hold at the first start, and every command keeps them, so they
  hold after every sequence of commands. \<open>pushLog\<close> puts the new entry in front of the
  first 199 entries of the log, in their order: nothing is dropped below the cap, and
  at the cap exactly the oldest entry, the last one, is dropped. A trigger that changes
  a sensor does the same to its history, with 29 and 30.
\<close>

theorem caps_hold:
  "bounded initialApp \<and>
   (bounded a \<longrightarrow> bounded (run cs a)) \<and>
   pushLog m tm now lg =
     \<lparr>l_message = m, l_time = (case tm of None \<Rightarrow> now | Some t \<Rightarrow> if t \<noteq> [] then t else now)\<rparr>
       # take 199 lg \<and>
   (length lg < 200 \<longrightarrow> pushLog m tm now lg =
     \<lparr>l_message = m, l_time = (case tm of None \<Rightarrow> now | Some t \<Rightarrow> if t \<noteq> [] then t else now)\<rparr>
       # lg) \<and>
   (length lg = 200 \<longrightarrow> pushLog m tm now lg =
     \<lparr>l_message = m, l_time = (case tm of None \<Rightarrow> now | Some t \<Rightarrow> if t \<noteq> [] then t else now)\<rparr>
       # butlast lg) \<and>
   (\<not> alarmOn a \<and> i < length (sensors a) \<and> s_id (sensors a ! i) = sensorId \<longrightarrow>
      s_history (sensors (simulateSensorEvent sensorId fs now a) ! i) =
        \<lparr>e_time = now, e_type = newState fs (sensors a ! i),
          e_note = s_name (sensors a ! i) @ '' '' @ arrow @ '' '' @ newState fs (sensors a ! i)\<rparr>
        # take 29 (s_history (sensors a ! i)) \<and>
      (length (s_history (sensors a ! i)) < 30 \<longrightarrow>
         take 29 (s_history (sensors a ! i)) = s_history (sensors a ! i)) \<and>
      (length (s_history (sensors a ! i)) = 30 \<longrightarrow>
         take 29 (s_history (sensors a ! i)) = butlast (s_history (sensors a ! i))))"
proof -
  have p1: "length lg < 200 \<longrightarrow> take 199 lg = lg" by simp
  have p2: "length lg = 200 \<longrightarrow> take 199 lg = butlast lg" by (simp add: butlast_conv_take)
  have h1: "length (s_history (sensors a ! i)) < 30 \<longrightarrow>
         take 29 (s_history (sensors a ! i)) = s_history (sensors a ! i)" by simp
  have h2: "length (s_history (sensors a ! i)) = 30 \<longrightarrow>
         take 29 (s_history (sensors a ! i)) = butlast (s_history (sensors a ! i))"
    by (simp add: butlast_conv_take)
  have r: "bounded a \<longrightarrow> bounded (run cs a)" by (simp add: run_bounded)
  have h: "\<not> alarmOn a \<and> i < length (sensors a) \<and> s_id (sensors a ! i) = sensorId \<longrightarrow>
      s_history (sensors (simulateSensorEvent sensorId fs now a) ! i) =
        \<lparr>e_time = now, e_type = newState fs (sensors a ! i),
          e_note = s_name (sensors a ! i) @ '' '' @ arrow @ '' '' @ newState fs (sensors a ! i)\<rparr>
        # take 29 (s_history (sensors a ! i))"
    using simulate_history[of a i sensorId fs now] by blast
  show ?thesis
    unfolding pushLog_front using initialApp_bounded r p1 p2 h1 h2 h by simp
qed

text \<open>
  The theorem at the armed system (a run that keeps the caps), at the empty log and at
  a log of 200 entries, and at a sensor whose history holds 30 events.
\<close>

theorem caps_hold_witness:
  "bounded initialApp \<and> bounded armedApp \<and>
   bounded (run [(TriggerSensor 1 None, ''2024-05-01T10:00:05.000Z''),
                 (ClearLogs, ''2024-05-01T10:00:09.000Z'')] armedApp) \<and>
   length (logs initialApp) < 200 \<and>
   pushLog ''System armed'' (Some ''2024-05-01T10:00:00.000Z'') ''2024-05-01T10:00:00.000Z''
       (logs initialApp) =
     \<lparr>l_message = ''System armed'', l_time = ''2024-05-01T10:00:00.000Z''\<rparr> # logs initialApp \<and>
   length (replicate 200 \<lparr>l_message = ''Checked Front Door'', l_time = ''2024-05-01T10:00:00.000Z''\<rparr>)
     = 200 \<and>
   pushLog ''Cleared logs'' None ''2024-05-01T10:00:09.000Z''
       (replicate 200 \<lparr>l_message = ''Checked Front Door'', l_time = ''2024-05-01T10:00:00.000Z''\<rparr>) =
     \<lparr>l_message = ''Cleared logs'', l_time = ''2024-05-01T10:00:09.000Z''\<rparr>
       # butlast (replicate 200
                  \<lparr>l_message = ''Checked Front Door'', l_time = ''2024-05-01T10:00:00.000Z''\<rparr>) \<and>
   \<not> alarmOn fullHistoryApp \<and> (0::nat) < length (sensors fullHistoryApp) \<and>
   s_id (sensors fullHistoryApp ! 0) = 1 \<and>
   length (s_history (sensors fullHistoryApp ! 0)) = 30 \<and>
   s_history (sensors (simulateSensorEvent 1 None ''2024-05-01T10:00:09.000Z'' fullHistoryApp) ! 0) =
     \<lparr>e_time = ''2024-05-01T10:00:09.000Z'', e_type = ''closed'',
       e_note = ''Front Door '' @ arrow @ '' closed''\<rparr>
     # butlast (s_history (sensors fullHistoryApp ! 0))"
proof -
  let ?t0 = "''2024-05-01T10:00:00.000Z''" and ?t9 = "''2024-05-01T10:00:09.000Z''"
  let ?old = "\<lparr>l_message = ''Checked Front Door'', l_time = ?t0\<rparr>"
  let ?cs = "[(TriggerSensor 1 None, ''2024-05-01T10:00:05.000Z''), (ClearLogs, ?t9)]"
  have b: "bounded armedApp"
    by (simp add: bounded_def armedApp_eq initialApp_def initialSensors_def)
  have l0: "length (logs initialApp) < 200" by (simp add: initialApp_def)
  have l200: "length (replicate 200 ?old) = 200" by simp
  have q: "\<not> alarmOn fullHistoryApp \<and> (0::nat) < length (sensors fullHistoryApp) \<and>
           s_id (sensors fullHistoryApp ! 0) = 1"
    by (simp add: fullHistoryApp_def initialApp_def frontDoorOpen_def)
  have h30: "length (s_history (sensors fullHistoryApp ! 0)) = 30"
    by (simp add: fullHistoryApp_def)
  have ns: "newState None (sensors fullHistoryApp ! 0) = ''closed''"
           "s_name (sensors fullHistoryApp ! 0) = ''Front Door''"
    by (simp_all add: fullHistoryApp_def frontDoorOpen_def newState_def toggleState_def)
  note t1 = caps_hold[where a = armedApp and cs = ?cs and m = "''System armed''"
      and tm = "Some ?t0" and now = ?t0 and lg = "logs initialApp"]
  note t2 = caps_hold[where a = fullHistoryApp and m = "''Cleared logs''" and tm = None
      and now = ?t9 and lg = "replicate 200 ?old" and i = 0 and sensorId = 1 and fs = None]
  have w1: "bounded initialApp" by (rule t1[THEN conjunct1])
  have w2: "bounded (run ?cs armedApp)"
    by (rule t1[THEN conjunct2, THEN conjunct1, rule_format, OF b])
  have w3: "pushLog ''System armed'' (Some ?t0) ?t0 (logs initialApp) =
      \<lparr>l_message = ''System armed'', l_time = ?t0\<rparr> # logs initialApp"
    using t1[THEN conjunct2, THEN conjunct2, THEN conjunct2, THEN conjunct1, rule_format, OF l0]
    by simp
  have w4: "pushLog ''Cleared logs'' None ?t9 (replicate 200 ?old) =
      \<lparr>l_message = ''Cleared logs'', l_time = ?t9\<rparr> # butlast (replicate 200 ?old)"
    using t2[THEN conjunct2, THEN conjunct2, THEN conjunct2, THEN conjunct2, THEN conjunct1,
             rule_format, OF l200]
    by simp
  note t6 = t2[THEN conjunct2, THEN conjunct2, THEN conjunct2, THEN conjunct2, THEN conjunct2,
               rule_format, OF q]
  have w5: "s_history (sensors (simulateSensorEvent 1 None ?t9 fullHistoryApp) ! 0) =
     \<lparr>e_time = ?t9, e_type = ''closed'', e_note = ''Front Door '' @ arrow @ '' closed''\<rparr>
     # butlast (s_history (sensors fullHistoryApp ! 0))"
    using t6[THEN conjunct1] t6[THEN conjunct2, THEN conjunct2, rule_format, OF h30]
    by (simp only: ns) simp
  from w1 b w2 l0 w3 l200 w4 q[THEN conjunct1] q[THEN conjunct2, THEN conjunct1]
    q[THEN conjunct2, THEN conjunct2] h30 w5
  show ?thesis by (intro conjI)
qed

section \<open>The frame of a trigger\<close>

text \<open>
  Claim C6. \<open>simulateSensorEvent\<close> keeps the number of sensors and the record of every
  sensor whose id is not the one given; with unique ids at most one record changes. If
  no sensor has the id, the whole state is returned as it was: no sensor changed, no
  log entry, \<open>alarmOn\<close> as before. The handler has no path that raises: it is a total
  function of the state.
\<close>

theorem trigger_frame:
  "length (sensors (simulateSensorEvent sensorId fs now a)) = length (sensors a) \<and>
   (\<forall>i<length (sensors a). s_id (sensors a ! i) \<noteq> sensorId \<longrightarrow>
      sensors (simulateSensorEvent sensorId fs now a) ! i = sensors a ! i) \<and>
   (distinct (map s_id (sensors a)) \<longrightarrow>
      (\<forall>i<length (sensors a). \<forall>j<length (sensors a).
         sensors (simulateSensorEvent sensorId fs now a) ! i \<noteq> sensors a ! i \<and>
         sensors (simulateSensorEvent sensorId fs now a) ! j \<noteq> sensors a ! j \<longrightarrow> i = j)) \<and>
   ((\<forall>s\<in>set (sensors a). s_id s \<noteq> sensorId) \<longrightarrow> simulateSensorEvent sensorId fs now a = a)"
proof -
  let ?a' = "simulateSensorEvent sensorId fs now a"
  have len: "length (sensors ?a') = length (sensors a)" by (rule simulate_length)
  have other: "\<forall>i<length (sensors a). s_id (sensors a ! i) \<noteq> sensorId \<longrightarrow>
      sensors ?a' ! i = sensors a ! i"
    by (simp add: simulate_nth updateSensor_other)
  have one: "distinct (map s_id (sensors a)) \<longrightarrow>
      (\<forall>i<length (sensors a). \<forall>j<length (sensors a).
         sensors ?a' ! i \<noteq> sensors a ! i \<and> sensors ?a' ! j \<noteq> sensors a ! j \<longrightarrow> i = j)"
  proof (intro impI allI)
    fix i j
    assume d: "distinct (map s_id (sensors a))" and i: "i < length (sensors a)"
      and j: "j < length (sensors a)"
      and ch: "sensors ?a' ! i \<noteq> sensors a ! i \<and> sensors ?a' ! j \<noteq> sensors a ! j"
    from ch other i j have "s_id (sensors a ! i) = sensorId" "s_id (sensors a ! j) = sensorId"
      by blast+
    then have e: "map s_id (sensors a) ! i = map s_id (sensors a) ! j" using i j by simp
    have "(map s_id (sensors a) ! i = map s_id (sensors a) ! j) = (i = j)"
      using d i j by (intro nth_eq_iff_index_eq) simp_all
    with e show "i = j" by blast
  qed
  have noop: "(\<forall>s\<in>set (sensors a). s_id s \<noteq> sensorId) \<longrightarrow> ?a' = a"
    by (simp add: simulate_no_match)
  from len other one noop show ?thesis by (intro conjI)
qed

text \<open>
  The theorem at the first start: triggering the Front Door changes its record, not the
  Back Window's, and triggering the id 99, which no sensor has, changes nothing.
\<close>

theorem trigger_frame_witness:
  "distinct (map s_id (sensors initialApp)) \<and> (1::nat) < length (sensors initialApp) \<and>
   (0::nat) < length (sensors initialApp) \<and>
   s_id (sensors initialApp ! 1) \<noteq> 1 \<and>
   length (sensors (simulateSensorEvent 1 None ''2024-05-01T10:00:05.000Z'' initialApp)) = 5 \<and>
   sensors (simulateSensorEvent 1 None ''2024-05-01T10:00:05.000Z'' initialApp) ! 1
     = sensors initialApp ! 1 \<and>
   sensors (simulateSensorEvent 1 None ''2024-05-01T10:00:05.000Z'' initialApp) ! 0
     \<noteq> sensors initialApp ! 0 \<and>
   99 \<notin> set (map s_id (sensors initialApp)) \<and>
   simulateSensorEvent 99 None ''2024-05-01T10:00:05.000Z'' initialApp = initialApp"
proof -
  let ?t = "''2024-05-01T10:00:05.000Z''"
  have d: "distinct (map s_id (sensors initialApp))"
    and l1: "(1::nat) < length (sensors initialApp)" and l0: "(0::nat) < length (sensors initialApp)"
    and o: "s_id (sensors initialApp ! 1) \<noteq> 1"
    and n: "99 \<notin> set (map s_id (sensors initialApp))"
    and len: "length (sensors initialApp) = 5"
    by (simp_all add: initialApp_def initialSensors_def)
  from n have n': "\<forall>s\<in>set (sensors initialApp). s_id s \<noteq> 99" by auto
  note t = trigger_frame[where a = initialApp and sensorId = 1 and fs = None and now = ?t]
  note u = trigger_frame[where a = initialApp and sensorId = 99 and fs = None and now = ?t]
  have w0: "length (sensors (simulateSensorEvent 1 None ?t initialApp)) = 5"
    using t[THEN conjunct1] len by simp
  have w1: "sensors (simulateSensorEvent 1 None ?t initialApp) ! 1 = sensors initialApp ! 1"
    by (rule t[THEN conjunct2, THEN conjunct1, rule_format, OF l1 o])
  have w2: "sensors (simulateSensorEvent 1 None ?t initialApp) ! 0 \<noteq> sensors initialApp ! 0"
  proof -
    have "s_state (sensors (simulateSensorEvent 1 None ?t initialApp) ! 0) = ''open''"
      and "s_state (sensors initialApp ! 0) = ''closed''"
      by code_simp+
    then show ?thesis by auto
  qed
  have w3: "simulateSensorEvent 99 None ?t initialApp = initialApp"
    using u[THEN conjunct2, THEN conjunct2, THEN conjunct2] n' by (rule mp)
  from d l1 l0 o w0 w1 w2 n w3 show ?thesis by (intro conjI)
qed

section \<open>Loading and the defaults\<close>

text \<open>
  What \<open>load\<close> returns. The defaults are the five sensors of \<open>initialSensors\<close>, \<open>armed\<close>
  false and an empty log; \<open>load\<close> returns them when reading the key throws, when the key
  is missing, when its text is empty, when the parser throws and when the text parses to
  \<open>null\<close>. For every other text the fallback is not reached: when it parses to an
  object, each of the three values is the member of that name, \<open>undefined\<close> where the
  object has none; when it parses to anything else, all three are \<open>undefined\<close>.
\<close>

lemma load_falls_back:
  "typed defaults = Some \<lparr>sn_sensors = initialSensors, sn_armed = False, sn_logs = []\<rparr> \<and>
   (getItem st STORAGE_KEY = Throws \<or> getItem st STORAGE_KEY = Returns None \<or>
    getItem st STORAGE_KEY = Returns (Some []) \<or>
    (\<exists>saved. getItem st STORAGE_KEY = Returns (Some saved) \<and>
       (parse saved = Throws \<or> parse saved = Returns JNull))
      \<longrightarrow> load parse st = defaults) \<and>
   (getItem st STORAGE_KEY = Returns (Some saved) \<and> saved \<noteq> [] \<and>
    parse saved = Returns (JObj kvs)
      \<longrightarrow> load parse st =
            \<lparr>ld_sensors = map_of kvs ''sensors'', ld_armed = map_of kvs ''armed'',
             ld_logs = map_of kvs ''logs''\<rparr>) \<and>
   (getItem st STORAGE_KEY = Returns (Some saved) \<and> saved \<noteq> [] \<and>
    parse saved = Returns v \<and> v \<noteq> JNull \<and> (\<forall>kvs. v \<noteq> JObj kvs)
      \<longrightarrow> load parse st = \<lparr>ld_sensors = None, ld_armed = None, ld_logs = None\<rparr>)"
proof (intro conjI impI)
  show "typed defaults = Some \<lparr>sn_sensors = initialSensors, sn_armed = False, sn_logs = []\<rparr>"
    by (rule typed_defaults)
next
  assume "getItem st STORAGE_KEY = Throws \<or> getItem st STORAGE_KEY = Returns None \<or>
    getItem st STORAGE_KEY = Returns (Some []) \<or>
    (\<exists>saved. getItem st STORAGE_KEY = Returns (Some saved) \<and>
       (parse saved = Throws \<or> parse saved = Returns JNull))"
  then have "\<And>field dflt. loadField parse st field dflt = dflt"
    by (rule loadField_fallback)
  then show "load parse st = defaults" by (simp add: load_def)
next
  assume "getItem st STORAGE_KEY = Returns (Some saved) \<and> saved \<noteq> [] \<and>
    parse saved = Returns (JObj kvs)"
  then have "\<And>field dflt. loadField parse st field dflt = map_of kvs field"
    using loadField_parsed[of st saved parse "JObj kvs"] by simp
  then show "load parse st =
            \<lparr>ld_sensors = map_of kvs ''sensors'', ld_armed = map_of kvs ''armed'',
             ld_logs = map_of kvs ''logs''\<rparr>" by (simp add: load_def)
next
  assume a: "getItem st STORAGE_KEY = Returns (Some saved) \<and> saved \<noteq> [] \<and>
    parse saved = Returns v \<and> v \<noteq> JNull \<and> (\<forall>kvs. v \<noteq> JObj kvs)"
  then have "(case v of JObj kvs \<Rightarrow> map_of kvs field | _ \<Rightarrow> None) = None" for field
    by (cases v) simp_all
  with a have "\<And>field dflt. loadField parse st field dflt = None"
    using loadField_parsed[of st saved parse v] by simp
  then show "load parse st = \<lparr>ld_sensors = None, ld_armed = None, ld_logs = None\<rparr>"
    by (simp add: load_def)
qed

text \<open>
  With the reference parser: at a storage that refuses access, an empty one, one with a
  text that is not JSON, one with a stored snapshot and one with a number.
\<close>

lemma load_falls_back_samples:
  "getItem Blocked STORAGE_KEY = Throws \<and> load ref_parse Blocked = defaults \<and>
   getItem emptyStore STORAGE_KEY = Returns None \<and> load ref_parse emptyStore = defaults \<and>
   getItem garbledStore STORAGE_KEY = Returns (Some ''{sensors:'') \<and>
   ref_parse ''{sensors:'' = Throws \<and> load ref_parse garbledStore = defaults \<and>
   getItem ringingStore STORAGE_KEY =
     Returns (Some (ref_stringify (snapshot_json (snapshot_of ringingApp)))) \<and>
   ref_stringify (snapshot_json (snapshot_of ringingApp)) \<noteq> [] \<and>
   ref_parse (ref_stringify (snapshot_json (snapshot_of ringingApp))) =
     Returns (JObj [(''sensors'', JArr (map sensor_json (sensors ringingApp))),
                    (''armed'', JBool True),
                    (''logs'', JArr (map log_json (logs ringingApp)))]) \<and>
   load ref_parse ringingStore =
     \<lparr>ld_sensors = Some (JArr (map sensor_json (sensors ringingApp))),
      ld_armed = Some (JBool True),
      ld_logs = Some (JArr (map log_json (logs ringingApp)))\<rparr> \<and>
   getItem numberStore STORAGE_KEY = Returns (Some ''5'') \<and>
   ref_parse ''5'' = Returns (JNum 5) \<and>
   load ref_parse numberStore = \<lparr>ld_sensors = None, ld_armed = None, ld_logs = None\<rparr>"
proof -
  let ?txt = "ref_stringify (snapshot_json (snapshot_of ringingApp))"
  let ?kvs = "[(''sensors'', JArr (map sensor_json (sensors ringingApp))),
               (''armed'', JBool True),
               (''logs'', JArr (map log_json (logs ringingApp)))]"
  have g0: "getItem Blocked STORAGE_KEY = Throws" by (simp add: getItem_def)
  have g1: "getItem emptyStore STORAGE_KEY = Returns None" by (simp add: getItem_def emptyStore_def)
  have g2: "getItem garbledStore STORAGE_KEY = Returns (Some ''{sensors:'')"
    by (simp add: getItem_def garbledStore_def)
  have p2: "ref_parse ''{sensors:'' = Throws" by (rule ref_parse_samples(2))
  have g3: "getItem ringingStore STORAGE_KEY = Returns (Some ?txt)"
    by (simp add: getItem_def ringingStore_def)
  have n3: "?txt \<noteq> []" by (rule ref_stringify_nonempty)
  have p3: "ref_parse ?txt = Returns (JObj ?kvs)"
    using ref_roundtrip_ringing ringingApp_armed by (simp add: snapshot_json_def snapshot_of_def)
  have g4: "getItem numberStore STORAGE_KEY = Returns (Some ''5'')"
    by (simp add: getItem_def numberStore_def)
  have p4: "ref_parse ''5'' = Returns (JNum 5)" by (rule ref_parse_number)
  have w0: "load ref_parse Blocked = defaults"
    using load_falls_back[where st = Blocked and parse = ref_parse, THEN conjunct2, THEN conjunct1] g0 by blast
  have w1: "load ref_parse emptyStore = defaults"
    using load_falls_back[where st = emptyStore and parse = ref_parse, THEN conjunct2, THEN conjunct1] g1 by blast
  have w2: "load ref_parse garbledStore = defaults"
    using load_falls_back[where st = garbledStore and parse = ref_parse, THEN conjunct2, THEN conjunct1] g2 p2 by blast
  have w3: "load ref_parse ringingStore =
     \<lparr>ld_sensors = Some (JArr (map sensor_json (sensors ringingApp))),
      ld_armed = Some (JBool True),
      ld_logs = Some (JArr (map log_json (logs ringingApp)))\<rparr>"
    using load_falls_back[where st = ringingStore and parse = ref_parse and saved = ?txt
        and kvs = ?kvs, THEN conjunct2, THEN conjunct2, THEN conjunct1] g3 n3 p3
    by simp
  have w4: "load ref_parse numberStore = \<lparr>ld_sensors = None, ld_armed = None, ld_logs = None\<rparr>"
    using load_falls_back[where st = numberStore and parse = ref_parse and saved = "''5''"
        and v = "JNum 5", THEN conjunct2, THEN conjunct2, THEN conjunct2] g4 p4
    by simp
  from g0 w0 g1 w1 g2 p2 w2 g3 n3 p3 w3 g4 p4 w4 show ?thesis by (intro conjI)
qed

text \<open>
  Claim C7 fails on the code. The content \<open>{}\<close> cannot be used, yet it parses, so no
  exception reaches the \<open>catch\<close>: \<open>load\<close> returns \<open>undefined\<close> three times, which is
  neither the defaults nor a state, and the first render throws at \<open>sensors.map\<close>.
\<close>

theorem empty_object_loads_undefined:
  "getItem emptyObjectStore STORAGE_KEY = Returns (Some ''{}'') \<and>
   ref_parse ''{}'' = Returns (JObj []) \<and>
   load ref_parse emptyObjectStore = \<lparr>ld_sensors = None, ld_armed = None, ld_logs = None\<rparr> \<and>
   load ref_parse emptyObjectStore \<noteq> defaults \<and>
   typed (load ref_parse emptyObjectStore) = None \<and>
   mapCallThrows (ld_sensors (load ref_parse emptyObjectStore))"
proof -
  have g: "getItem emptyObjectStore STORAGE_KEY = Returns (Some ''{}'')"
    by (simp add: getItem_def emptyObjectStore_def)
  have l: "load ref_parse emptyObjectStore = \<lparr>ld_sensors = None, ld_armed = None, ld_logs = None\<rparr>"
    by (simp add: load_def loadField_def g ref_parse_samples)
  show ?thesis using g l by (simp add: ref_parse_samples defaults_def typed_def mapCallThrows_def)
qed

section \<open>Saving, then loading\<close>

text \<open>
  Claim C8. Let the platform's \<open>JSON.parse\<close> give back the snapshot object that
  \<open>JSON.stringify\<close> printed (whose text is never empty), and let the storage accept the
  write. Then loading after saving returns the three values that were saved, and read as
  typed state they are the snapshot that was saved.
\<close>

theorem save_load_roundtrip:
  assumes "parse (stringify (snapshot_json snap)) = Returns (snapshot_json snap)"
    and "stringify (snapshot_json snap) \<noteq> []"
  shows "persist stringify snap (Items m) =
           Returns (Items (m(STORAGE_KEY \<mapsto> stringify (snapshot_json snap)))) \<and>
         load parse (Items (m(STORAGE_KEY \<mapsto> stringify (snapshot_json snap)))) =
           \<lparr>ld_sensors = Some (JArr (map sensor_json (sn_sensors snap))),
            ld_armed = Some (JBool (sn_armed snap)),
            ld_logs = Some (JArr (map log_json (sn_logs snap)))\<rparr> \<and>
         typed (load parse (Items (m(STORAGE_KEY \<mapsto> stringify (snapshot_json snap))))) = Some snap"
proof -
  let ?st = "Items (m(STORAGE_KEY \<mapsto> stringify (snapshot_json snap)))"
  have l: "load parse ?st =
           \<lparr>ld_sensors = Some (JArr (map sensor_json (sn_sensors snap))),
            ld_armed = Some (JBool (sn_armed snap)),
            ld_logs = Some (JArr (map log_json (sn_logs snap)))\<rparr>"
    by (rule load_after_persist[where parse = parse and stringify = stringify, OF assms])
  have p: "persist stringify snap (Items m) = Returns ?st"
    by (simp add: persist_def setItem_def)
  show ?thesis using p l typed_snapshot[of snap] by simp
qed

text \<open>The theorem with the reference codec, at the snapshot of the ringing alarm.\<close>

theorem save_load_roundtrip_witness:
  "ref_parse (ref_stringify (snapshot_json (snapshot_of ringingApp))) =
     Returns (snapshot_json (snapshot_of ringingApp)) \<and>
   ref_stringify (snapshot_json (snapshot_of ringingApp)) \<noteq> [] \<and>
   persist ref_stringify (snapshot_of ringingApp) emptyStore = Returns ringingStore \<and>
   typed (load ref_parse ringingStore) = Some (snapshot_of ringingApp)"
proof -
  have h1: "ref_parse (ref_stringify (snapshot_json (snapshot_of ringingApp))) =
     Returns (snapshot_json (snapshot_of ringingApp))" by (rule ref_roundtrip_ringing)
  have h2: "ref_stringify (snapshot_json (snapshot_of ringingApp)) \<noteq> []"
    by (rule ref_stringify_nonempty)
  note t = save_load_roundtrip[where parse = ref_parse and stringify = ref_stringify
      and snap = "snapshot_of ringingApp" and m = "\<lambda>k. None", OF h1 h2]
  have w1: "persist ref_stringify (snapshot_of ringingApp) emptyStore = Returns ringingStore"
    using t[THEN conjunct1] by (simp add: emptyStore_def ringingStore_def)
  have w2: "typed (load ref_parse ringingStore) = Some (snapshot_of ringingApp)"
    using t[THEN conjunct2, THEN conjunct2] by (simp add: ringingStore_def)
  from h1 h2 w1 w2 show ?thesis by (intro conjI)
qed

section \<open>Clearing the log\<close>

text \<open>
  Claim C9. Whatever the log held, after the Clear Logs button's handler it consists of
  exactly one entry, \<open>Cleared logs\<close>, stamped with the time of the call; it is not empty.
\<close>

theorem clear_logs_single_entry:
  "logs (clearLogs now a) = [\<lparr>l_message = ''Cleared logs'', l_time = now\<rparr>] \<and>
   logs (exec ClearLogs now a) = [\<lparr>l_message = ''Cleared logs'', l_time = now\<rparr>] \<and>
   logs (clearLogs now a) \<noteq> []"
  by (simp add: clearLogs_def pushLog_def)

section \<open>The alarm does not survive a restart\<close>

text \<open>
  Claim C10. The stored object has the members \<open>sensors\<close>, \<open>armed\<close> and \<open>logs\<close> only:
  reading \<open>alarmOn\<close> from it gives \<open>undefined\<close>. Whatever the storage holds, the mounted
  component has \<open>alarmOn\<close> false. So a state saved while the alarm rings comes back, where
  the platform's JSON functions give back what they printed, with its sensors, \<open>armed\<close>
  and log, and with \<open>alarmOn\<close> false.
\<close>

theorem alarm_lost_on_restart:
  "getProp (snapshot_json (snapshot_of a)) ''alarmOn'' = Returns None \<and>
   m_alarmOn (mount parse st) = False \<and>
   map_option alarmOn (app_of (mount parse st)) \<noteq> Some True \<and>
   (parse (stringify (snapshot_json (snapshot_of a))) = Returns (snapshot_json (snapshot_of a)) \<and>
    stringify (snapshot_json (snapshot_of a)) \<noteq> [] \<longrightarrow>
      app_of (mount parse (Items (m(STORAGE_KEY \<mapsto> stringify (snapshot_json (snapshot_of a)))))) =
        Some (a\<lparr>showModal := False, selectedSensor := None, simulate := True, alarmOn := False\<rparr>))"
proof (intro conjI impI)
  show "getProp (snapshot_json (snapshot_of a)) ''alarmOn'' = Returns None"
    by (simp add: snapshot_json_def)
  show "m_alarmOn (mount parse st) = False" by (simp add: mount_def)
  show "map_option alarmOn (app_of (mount parse st)) \<noteq> Some True"
    by (simp add: mount_def app_of_def split: option.splits)
next
  assume h: "parse (stringify (snapshot_json (snapshot_of a))) = Returns (snapshot_json (snapshot_of a)) \<and>
    stringify (snapshot_json (snapshot_of a)) \<noteq> []"
  have "typed (load parse (Items (m(STORAGE_KEY \<mapsto> stringify (snapshot_json (snapshot_of a)))))) =
          Some (snapshot_of a)"
    using load_after_persist[where parse = parse and stringify = stringify
        and snap = "snapshot_of a" and m = m, OF h[THEN conjunct1] h[THEN conjunct2]]
      typed_snapshot[of "snapshot_of a"] by simp
  then show "app_of (mount parse (Items (m(STORAGE_KEY \<mapsto> stringify (snapshot_json (snapshot_of a)))))) =
        Some (a\<lparr>showModal := False, selectedSensor := None, simulate := True, alarmOn := False\<rparr>)"
    by (simp add: app_of_def mount_def snapshot_of_def)
qed

text \<open>The theorem with the reference codec, at the ringing alarm.\<close>

theorem alarm_lost_on_restart_witness:
  "alarmOn ringingApp \<and>
   ref_parse (ref_stringify (snapshot_json (snapshot_of ringingApp))) =
     Returns (snapshot_json (snapshot_of ringingApp)) \<and>
   ref_stringify (snapshot_json (snapshot_of ringingApp)) \<noteq> [] \<and>
   app_of (mount ref_parse ringingStore) =
     Some (ringingApp\<lparr>showModal := False, selectedSensor := None, simulate := True,
                      alarmOn := False\<rparr>)"
proof -
  have h: "ref_parse (ref_stringify (snapshot_json (snapshot_of ringingApp))) =
     Returns (snapshot_json (snapshot_of ringingApp)) \<and>
     ref_stringify (snapshot_json (snapshot_of ringingApp)) \<noteq> []"
    using ref_roundtrip_ringing ref_stringify_nonempty by simp
  have w: "app_of (mount ref_parse ringingStore) =
     Some (ringingApp\<lparr>showModal := False, selectedSensor := None, simulate := True,
                      alarmOn := False\<rparr>)"
    using alarm_lost_on_restart[where a = ringingApp and parse = ref_parse
        and stringify = ref_stringify and m = "\<lambda>k. None",
        THEN conjunct2, THEN conjunct2, THEN conjunct2] h
    by (simp add: ringingStore_def)
  from ringingApp_alarm h[THEN conjunct1] h[THEN conjunct2] w show ?thesis by (intro conjI)
qed

end
